theory Spec2Isabelle
  imports Complex_Main "HOL-Library.Char_ord" "HOL-Library.List_Lexorder" "HOL-Library.Multiset"
    "HOL-Library.AList" "HOL-Library.Log_Nat"
begin

text \<open>
  The OCR servers of RustOCR, \<open>easyocr_server_enhanced.py\<close> and \<open>easyocr_server.py\<close>:
  the cache of OCR models, the handlers of the HTTP routes and the request statistics,
  as functions on the state of the module. The enhanced server is modelled; the plain
  one has the same \<open>get_model_key\<close>, \<open>get_or_create_model\<close>, \<open>perform_ocr\<close> and
  \<open>warmup_model\<close>, and no statistics.
\<close>

section \<open>Python runtime values used by the server\<close>

text \<open>
  Python strings are modelled as \<^typ>\<open>string\<close>, read as their UTF-8 bytes. Python compares
  \<open>str\<close> values lexicographically by code point, a proper prefix being smaller; the
  lexicographic order on UTF-8 byte sequences is the same order, and it is the order
  \<^typ>\<open>char list\<close> carries here.
\<close>

text \<open>\<open>sep.join(xs)\<close> of Python.\<close>

fun join :: "string \<Rightarrow> string list \<Rightarrow> string" where
  "join sep [] = []"
| "join sep [x] = x"
| "join sep (x # y # ys) = x @ sep @ join sep (y # ys)"

section \<open>The cache key\<close>

text \<open>
  \<^verbatim>\<open>
  def get_model_key(languages: List[str]) -> str:
      """Generate cache key for language combination"""
      return ",".join(sorted(languages))
  \<close>
  The function is the same, line for line, in \<open>easyocr_server.py\<close> and in
  \<open>easyocr_server_enhanced.py\<close>.
\<close>

definition get_model_key :: "string list \<Rightarrow> string" where
  "get_model_key languages = join '','' (sort languages)"

section \<open>Exceptions\<close>

text \<open>
  Every \<open>raise\<close> of the source is a value. \<open>HTTPException\<close> is FastAPI's exception
  class (a subclass of \<open>Exception\<close>) with its status code and detail; \<open>PyException m\<close> is
  any other instance of \<open>Exception\<close>, \<open>m\<close> being what \<open>str(e)\<close> returns; and
  \<open>PyBaseException\<close> is an exception outside \<open>Exception\<close> (\<open>CancelledError\<close>,
  \<open>KeyboardInterrupt\<close>, \<open>SystemExit\<close>), which a clause \<open>except Exception\<close> does not
  catch.
\<close>

datatype exn =
    HTTPException int string
  | PyException string
  | PyBaseException string

fun is_Exception :: "exn \<Rightarrow> bool" where
  "is_Exception (HTTPException c d) = True"
| "is_Exception (PyException m) = True"
| "is_Exception (PyBaseException m) = False"

fun is_HTTPException :: "exn \<Rightarrow> bool" where
  "is_HTTPException (HTTPException c d) = True"
| "is_HTTPException (PyException m) = False"
| "is_HTTPException (PyBaseException m) = False"

section \<open>Data model\<close>

text \<open>
  The pydantic models and the dictionaries of \<open>easyocr_server_enhanced.py\<close>. A Python
  float is the rational number it stands for, and every operation on floats rounds its
  exact result to a float again (see below); Python integers are \<^typ>\<open>int\<close>. Field names are the source's, except
  where two classes share a name or the name is taken: \<open>req_image\<close> is
  \<open>OcrRequest.image\<close>, \<open>ocr_text\<close> is \<open>OcrResult.text\<close>, \<open>entry_languages\<close> is the
  \<open>'languages'\<close> item of a cache entry, and a field that repeats a name of another
  class or a key of \<open>STATS\<close> carries a prefix (\<open>r_\<close>, \<open>h_\<close>, \<open>i_\<close>, \<open>m_\<close>).
\<close>

record OcrRequest =
  req_image :: string
  languages :: "string list"
  detail :: int
  gpu :: bool

record OcrResult =
  bbox :: "int list list"
  ocr_text :: string
  confidence :: rat

record OcrResponse =
  status :: string
  request_id :: string
  results :: "OcrResult list"
  processing_time_ms :: rat
  model_load_time_ms :: rat
  timestamp :: string

record HealthResponse =
  h_status :: string
  models_loaded :: "string list"
  h_uptime_seconds :: rat

record ServerInfoResponse =
  name :: string
  version :: string
  description :: string
  supported_languages :: int
  gpu_available :: bool
  i_uptime_seconds :: rat
  endpoints :: "(string \<times> string) list"

record ModelInfo =
  m_languages :: "string list"
  m_loaded_at :: rat
  m_gpu_enabled :: bool

record ServerStatsResponse =
  r_total_requests :: int
  r_successful_requests :: int
  r_failed_requests :: int
  success_rate :: rat
  average_processing_time_ms :: rat
  loaded_models :: "string list"
  uptime_seconds :: rat

text \<open>One value of \<open>MODEL_CACHE\<close>.\<close>

record 'r model_entry =
  reader :: 'r
  entry_languages :: "string list"
  loaded_at :: rat
  gpu_enabled :: bool

text \<open>The dictionary \<open>STATS\<close>.\<close>

record stats =
  total_requests :: int
  successful_requests :: int
  failed_requests :: int
  processing_times :: "rat list"

text \<open>
  The module's global state: \<open>MODEL_CACHE\<close> (a Python \<open>dict\<close>, kept as an association
  list in insertion order), \<open>STATS\<close>, \<open>START_TIME\<close>, and \<open>world\<close>, the state of
  everything outside the module that its calls read or change (the clock, the random
  source of \<open>uuid4\<close>, the OCR library with its files and devices).
\<close>

record ('r, 'w) server =
  MODEL_CACHE :: "(string \<times> 'r model_entry) list"
  STATS :: stats
  START_TIME :: rat
  world :: 'w

text \<open>
  What \<open>reader.readtext\<close> returns is a list whose items are strings when \<open>detail\<close> is 0
  and triples \<open>(bbox, text, confidence)\<close> otherwise, \<open>bbox\<close> being a list of \<open>[x, y]\<close>
  corners.
\<close>

datatype raw_item =
    Text string
  | Span "(rat \<times> rat) list" string rat

text \<open>
  The library calls of the module. Each takes the world and returns the new one; a call
  that raises returns \<open>Inl\<close>. \<open>Reader\<close> is \<open>easyocr.Reader(languages, gpu=gpu,
  verbose=False)\<close>; \<open>readtext r img d\<close> is \<open>r.readtext(img, detail=d)\<close>; \<open>open_image\<close> is
  \<open>Image.open(io.BytesIO(base64.b64decode(s)))\<close>; \<open>time\<close> is \<open>time.time()\<close>; \<open>uuid4\<close>
  is \<open>str(uuid.uuid4())\<close>; \<open>isoformat_now\<close> is \<open>datetime.now().isoformat()\<close>;
  \<open>http_str c d\<close> is \<open>str(HTTPException(status_code=c, detail=d))\<close>;
  \<open>import_torch\<close> is the statement \<open>import torch\<close>, which returns the exception it
  raises, if any; \<open>cuda_is_available\<close> is
  \<open>torch.cuda.is_available() if hasattr(torch, 'cuda') else False\<close>; \<open>float_sum\<close> is
  the builtin \<open>sum\<close> on a non-empty list of floats, whose last bit depends on the
  interpreter (CPython adds from left to right, and from version 3.12 on carries a
  compensation term), which is why it is a parameter.
\<close>

record ('r, 'img, 'w) runtime =
  Reader :: "string list \<Rightarrow> bool \<Rightarrow> 'w \<Rightarrow> (exn + 'r) \<times> 'w"
  readtext :: "'r \<Rightarrow> 'img \<Rightarrow> int \<Rightarrow> 'w \<Rightarrow> (exn + raw_item list) \<times> 'w"
  open_image :: "string \<Rightarrow> exn + 'img"
  time :: "'w \<Rightarrow> rat \<times> 'w"
  uuid4 :: "'w \<Rightarrow> string \<times> 'w"
  isoformat_now :: "'w \<Rightarrow> string \<times> 'w"
  http_str :: "int \<Rightarrow> string \<Rightarrow> string"
  import_torch :: "'w \<Rightarrow> exn option \<times> 'w"
  cuda_is_available :: "'w \<Rightarrow> (exn + bool) \<times> 'w"
  float_sum :: "rat list \<Rightarrow> rat"

text \<open>\<open>str(e)\<close>.\<close>

fun str :: "('r, 'img, 'w) runtime \<Rightarrow> exn \<Rightarrow> string" where
  "str rt (HTTPException c d) = http_str rt c d"
| "str rt (PyException m) = m"
| "str rt (PyBaseException m) = m"

text \<open>\<open>int(x)\<close> of a float: truncation towards zero.\<close>

definition py_int :: "rat \<Rightarrow> int" where
  "py_int x = (if 0 \<le> x then \<lfloor>x\<rfloor> else \<lceil>x\<rceil>)"

subsection \<open>Floating point\<close>

text \<open>
  Python's \<open>float\<close> is the IEEE 754 double: 53 significant bits, exponent of the leading
  bit from -1022 up. \<open>fl x\<close> is the double nearest to the rational \<open>x\<close>, a tie going
  to the even significand: with \<open>e = ilog2 \<bar>x\<bar>\<close>, the position of the leading bit
  (not below -1022, where the subnormal numbers begin), \<open>x\<close> is rounded to a multiple
  of \<open>pow2 (e - 52)\<close>. Numbers beyond the largest double are not expected and get no
  infinity.
\<close>

definition round_half_even :: "rat \<Rightarrow> int" where
  "round_half_even x =
     (let f = \<lfloor>x\<rfloor>; d = x - of_int f
      in if d < 1 / 2 then f else if 1 / 2 < d then f + 1 else if even f then f else f + 1)"

definition pow2 :: "int \<Rightarrow> rat" where
  "pow2 k = (if 0 \<le> k then 2 ^ nat k else 1 / 2 ^ nat (- k))"

text \<open>
  For \<open>x > 0\<close>, the integer \<open>e\<close> with \<open>pow2 e \<le> x < pow2 (e + 1)\<close>, from the bit
  lengths of numerator and denominator.
\<close>

definition ilog2 :: "rat \<Rightarrow> int" where
  "ilog2 x =
     (case quotient_of x of (p, q) \<Rightarrow>
        let k = int (floorlog 2 (nat p)) - int (floorlog 2 (nat q))
        in if pow2 k \<le> x then k else k - 1)"

definition fl :: "rat \<Rightarrow> rat" where
  "fl x =
     (if x = 0 then 0
      else let e = max (ilog2 \<bar>x\<bar>) (- 1022); u = pow2 (e - 52)
           in of_int (round_half_even (x / u)) * u)"

text \<open>
  \<open>a - b\<close>, \<open>a * b\<close> and \<open>a / b\<close> on floats, and on integers for \<open>/\<close>, are the exact
  results rounded once.
\<close>

definition fsub :: "rat \<Rightarrow> rat \<Rightarrow> rat" where
  "fsub a b = fl (a - b)"

definition fmul :: "rat \<Rightarrow> rat \<Rightarrow> rat" where
  "fmul a b = fl (a * b)"

definition fdiv :: "rat \<Rightarrow> rat \<Rightarrow> rat" where
  "fdiv a b = fl (a / b)"

text \<open>
  \<open>round(x, n)\<close> of a float \<open>x\<close>: the exact value of \<open>x\<close> is rounded to \<open>n\<close> decimals, a
  tie going to the even last digit, and the float nearest to that decimal number is
  returned.
\<close>

definition py_round :: "rat \<Rightarrow> nat \<Rightarrow> rat" where
  "py_round x n = fl (of_int (round_half_even (x * 10 ^ n)) / 10 ^ n)"

subsection \<open>Dictionary operations\<close>

text \<open>
  \<open>k in d\<close>, \<open>d[k]\<close>, \<open>d[k] = v\<close> (an existing key keeps its place, a new one goes
  last) and \<open>list(d.keys())\<close>.
\<close>

definition dict_contains :: "('k \<times> 'v) list \<Rightarrow> 'k \<Rightarrow> bool" where
  "dict_contains d k = (map_of d k \<noteq> None)"

definition dict_get :: "('k \<times> 'v) list \<Rightarrow> 'k \<Rightarrow> exn + 'v" where
  "dict_get d k = (case map_of d k of None \<Rightarrow> Inl (PyException ''KeyError'') | Some v \<Rightarrow> Inr v)"

definition dict_set :: "('k \<times> 'v) list \<Rightarrow> 'k \<Rightarrow> 'v \<Rightarrow> ('k \<times> 'v) list" where
  "dict_set d k v = AList.update k v d"

definition dict_keys :: "('k \<times> 'v) list \<Rightarrow> 'k list" where
  "dict_keys d = map fst d"

section \<open>The model cache\<close>

text \<open>
  \<^verbatim>\<open>
  def get_or_create_model(languages: List[str], gpu: bool = True) -> easyocr.Reader:
      model_key = get_model_key(languages)
      if model_key not in MODEL_CACHE:
          start_time = time.time()
          try:
              reader = easyocr.Reader(languages, gpu=gpu, verbose=False)
              MODEL_CACHE[model_key] = {
                  'reader': reader, 'languages': languages,
                  'loaded_at': time.time(), 'gpu_enabled': gpu }
              load_time = time.time() - start_time
          except Exception as e:
              raise HTTPException(status_code=500, detail=f"Failed to load model: {str(e)}")
      return MODEL_CACHE[model_key]['reader']
  \<close>
  The function is the same in both servers. It has no \<open>await\<close>: under the event
  loop that runs the \<open>async def\<close> handlers, a call runs from its first line to its
  last with no other handler in between. The model is of such calls, one after the
  other.
\<close>

definition get_or_create_model ::
  "('r, 'img, 'w) runtime \<Rightarrow> string list \<Rightarrow> bool \<Rightarrow> ('r, 'w) server \<Rightarrow> (exn + 'r) \<times> ('r, 'w) server"
where
  "get_or_create_model rt langs use_gpu s =
     (let model_key = get_model_key langs in
      if \<not> dict_contains (MODEL_CACHE s) model_key then
        (case time rt (world s) of (start_time, w1) \<Rightarrow>
         case Reader rt langs use_gpu w1 of
           (Inl e, w2) \<Rightarrow>
             (if is_Exception e
              then (Inl (HTTPException 500 (''Failed to load model: '' @ str rt e)), s\<lparr>world := w2\<rparr>)
              else (Inl e, s\<lparr>world := w2\<rparr>))
         | (Inr rd, w2) \<Rightarrow>
            (case time rt w2 of (now, w3) \<Rightarrow>
             case time rt w3 of (end_time, w4) \<Rightarrow>
             let cache = dict_set (MODEL_CACHE s) model_key
                   \<lparr>reader = rd, entry_languages = langs, loaded_at = now, gpu_enabled = use_gpu\<rparr>
             in (map_sum id reader (dict_get cache model_key), s\<lparr>MODEL_CACHE := cache, world := w4\<rparr>)))
      else (map_sum id reader (dict_get (MODEL_CACHE s) model_key), s))"

text \<open>
  \<^verbatim>\<open>
  async def warmup_model(languages: List[str], gpu: bool = True):
      try:
          get_or_create_model(languages, gpu)
          return {"status": "success", "languages": languages}
      except Exception as e:
          raise HTTPException(status_code=500, detail=str(e))
  \<close>
\<close>

definition warmup_model ::
  "('r, 'img, 'w) runtime \<Rightarrow> string list \<Rightarrow> bool \<Rightarrow> ('r, 'w) server
     \<Rightarrow> (exn + string \<times> string list) \<times> ('r, 'w) server"
where
  "warmup_model rt langs use_gpu s =
     (case get_or_create_model rt langs use_gpu s of
        (Inl e, s1) \<Rightarrow>
          (if is_Exception e then (Inl (HTTPException 500 (str rt e)), s1) else (Inl e, s1))
      | (Inr rd, s1) \<Rightarrow> (Inr (''success'', langs), s1))"

section \<open>The OCR request handler\<close>

text \<open>
  The two branches that turn what \<open>readtext\<close> returned into \<open>OcrResult\<close>s:
  \<^verbatim>\<open>
  if request.detail == 0:
      ocr_results = [OcrResult(text=text) for text in results]
  else:
      for bbox, text, confidence in results:
          ocr_results.append(OcrResult(
              bbox=[[int(x), int(y)] for x, y in bbox],
              text=text, confidence=float(confidence)))
  \<close>
  \<open>OcrResult\<close> declares \<open>bbox\<close> with the default \<open>[]\<close> and \<open>confidence\<close> with the
  default \<open>0.0\<close>. An item of the other shape raises: pydantic rejects a tuple as
  \<open>text\<close>, and a string does not unpack into a triple whose first component unpacks into
  pairs. Only the kind of these library exceptions is kept, not their message.
\<close>

fun simple_result :: "raw_item \<Rightarrow> exn + OcrResult" where
  "simple_result (Text t) = Inr \<lparr>bbox = [], ocr_text = t, confidence = 0\<rparr>"
| "simple_result (Span b t c) = Inl (PyException ''ValidationError'')"

fun detailed_result :: "raw_item \<Rightarrow> exn + OcrResult" where
  "detailed_result (Span b t c) =
     Inr \<lparr>bbox = map (\<lambda>(x, y). [py_int x, py_int y]) b, ocr_text = t, confidence = c\<rparr>"
| "detailed_result (Text t) = Inl (PyException ''ValueError'')"

text \<open>A comprehension or loop over the items: the first item that raises ends it.\<close>

fun collect :: "('a \<Rightarrow> exn + 'b) \<Rightarrow> 'a list \<Rightarrow> exn + 'b list" where
  "collect f [] = Inr []"
| "collect f (x # xs) =
     (case f x of
        Inl e \<Rightarrow> Inl e
      | Inr y \<Rightarrow> (case collect f xs of Inl e \<Rightarrow> Inl e | Inr ys \<Rightarrow> Inr (y # ys)))"

definition parse_results :: "int \<Rightarrow> raw_item list \<Rightarrow> exn + OcrResult list" where
  "parse_results d raw =
     (if d = 0 then collect simple_result raw else collect detailed_result raw)"

text \<open>
  The body of the \<open>try\<close> of \<open>perform_ocr\<close>, from the decoding of the image to the
  response:
  \<^verbatim>\<open>
  try:
      image_data = base64.b64decode(request.image)
      image = Image.open(io.BytesIO(image_data))
  except Exception as e:
      raise HTTPException(status_code=400, detail=f"Invalid image data: {str(e)}")
  model_start = time.time()
  reader = get_or_create_model(request.languages, request.gpu)
  model_load_time = (time.time() - model_start) * 1000
  ocr_start = time.time()
  results = reader.readtext(image, detail=request.detail)
  ocr_time = (time.time() - ocr_start) * 1000
  ... (the two branches above) ...
  total_time = (time.time() - start_time) * 1000
  return OcrResponse(status="success", request_id=request_id, results=ocr_results,
                     processing_time_ms=total_time, model_load_time_ms=model_load_time)
  \<close>
\<close>

definition ocr_body ::
  "('r, 'img, 'w) runtime \<Rightarrow> OcrRequest \<Rightarrow> string \<Rightarrow> rat \<Rightarrow> ('r, 'w) server
     \<Rightarrow> (exn + OcrResponse) \<times> ('r, 'w) server"
where
  "ocr_body rt request rid start_time s =
     (case open_image rt (req_image request) of
        Inl e \<Rightarrow>
          (if is_Exception e
           then (Inl (HTTPException 400 (''Invalid image data: '' @ str rt e)), s)
           else (Inl e, s))
      | Inr img \<Rightarrow>
         (case time rt (world s) of (model_start, w1) \<Rightarrow>
          case get_or_create_model rt (languages request) (gpu request) (s\<lparr>world := w1\<rparr>) of
            (Inl e, s1) \<Rightarrow> (Inl e, s1)
          | (Inr rd, s1) \<Rightarrow>
             (case time rt (world s1) of (t1, w2) \<Rightarrow>
              case time rt w2 of (ocr_start, w3) \<Rightarrow>
              case readtext rt rd img (detail request) w3 of
                (Inl e, w4) \<Rightarrow> (Inl e, s1\<lparr>world := w4\<rparr>)
              | (Inr raw, w4) \<Rightarrow>
                 (case time rt w4 of (t2, w5) \<Rightarrow>
                  case parse_results (detail request) raw of
                    Inl e \<Rightarrow> (Inl e, s1\<lparr>world := w5\<rparr>)
                  | Inr ocr_results \<Rightarrow>
                     (case time rt w5 of (t3, w6) \<Rightarrow>
                      case isoformat_now rt w6 of (stamp, w7) \<Rightarrow>
                        (Inr \<lparr>status = ''success'', request_id = rid, results = ocr_results,
                              processing_time_ms = fmul (fsub t3 start_time) 1000,
                              model_load_time_ms = fmul (fsub t1 model_start) 1000,
                              timestamp = stamp\<rparr>,
                         s1\<lparr>world := w7\<rparr>))))))"

text \<open>
  The handlers of the outer \<open>try\<close>:
  \<^verbatim>\<open>
  except HTTPException:
      raise
  except Exception as e:
      raise HTTPException(status_code=500, detail=str(e))
  \<close>
\<close>

fun ocr_except :: "(exn + 'a) \<times> 's \<Rightarrow> (exn + 'a) \<times> 's" where
  "ocr_except (Inl (HTTPException c d), s) = (Inl (HTTPException c d), s)"
| "ocr_except (Inl (PyException m), s) = (Inl (HTTPException 500 m), s)"
| "ocr_except (Inl (PyBaseException m), s) = (Inl (PyBaseException m), s)"
| "ocr_except (Inr r, s) = (Inr r, s)"

text \<open>
  \<open>perform_ocr\<close>, the handler of \<open>POST /api/v1/ocr\<close>: it draws the request id, reads
  the clock, and runs the body under the two handlers.
\<close>

definition perform_ocr ::
  "('r, 'img, 'w) runtime \<Rightarrow> OcrRequest \<Rightarrow> ('r, 'w) server \<Rightarrow> (exn + OcrResponse) \<times> ('r, 'w) server"
where
  "perform_ocr rt request s =
     (case uuid4 rt (world s) of (rid, w1) \<Rightarrow>
      case time rt w1 of (start_time, w2) \<Rightarrow>
        ocr_except (ocr_body rt request rid start_time (s\<lparr>world := w2\<rparr>)))"

section \<open>Statistics\<close>

text \<open>
  \<^verbatim>\<open>
  @app.middleware("http")
  async def track_requests(request: Request, call_next):
      request_id = str(uuid.uuid4())
      request.state.request_id = request_id
      start_time = time.time()
      try:
          response = await call_next(request)
          STATS['successful_requests'] += 1
          return response
      except Exception as e:
          STATS['failed_requests'] += 1
          raise
      finally:
          STATS['total_requests'] += 1
          process_time = (time.time() - start_time) * 1000
          STATS['processing_times'].append(process_time)
          if len(STATS['processing_times']) > 1000:  # Keep last 1000
              STATS['processing_times'].pop(0)
  \<close>
  \<open>call_next\<close> is the rest of the application: it runs on the server state and either
  returns a response or raises. Requests are taken one after the other.
\<close>

definition record_time :: "rat \<Rightarrow> rat list \<Rightarrow> rat list" where
  "record_time process_time samples =
     (let samples1 = samples @ [process_time]
      in if length samples1 > 1000 then tl samples1 else samples1)"

definition track_requests ::
  "('r, 'img, 'w) runtime \<Rightarrow> (('r, 'w) server \<Rightarrow> (exn + 'a) \<times> ('r, 'w) server)
     \<Rightarrow> ('r, 'w) server \<Rightarrow> (exn + 'a) \<times> ('r, 'w) server"
where
  "track_requests rt call_next s =
     (case uuid4 rt (world s) of (rid, w1) \<Rightarrow>
      case time rt w1 of (start_time, w2) \<Rightarrow>
      case call_next (s\<lparr>world := w2\<rparr>) of (outcome, s1) \<Rightarrow>
      let st1 = STATS s1;
          st2 = (case outcome of
                   Inr response \<Rightarrow> st1\<lparr>successful_requests := successful_requests st1 + 1\<rparr>
                 | Inl e \<Rightarrow>
                     if is_Exception e then st1\<lparr>failed_requests := failed_requests st1 + 1\<rparr>
                     else st1);
          st3 = st2\<lparr>total_requests := total_requests st2 + 1\<rparr>
      in case time rt (world s1) of (end_time, w3) \<Rightarrow>
           (outcome,
            s1\<lparr>STATS := st3\<lparr>processing_times :=
                      record_time (fmul (fsub end_time start_time) 1000) (processing_times st3)\<rparr>,
               world := w3\<rparr>))"

text \<open>
  \<^verbatim>\<open>
  async def get_server_stats():
      avg_time = sum(STATS['processing_times']) / len(STATS['processing_times']) \
                 if STATS['processing_times'] else 0
      total = STATS['total_requests']
      success_rate = (STATS['successful_requests'] / total * 100) if total > 0 else 0
      uptime = time.time() - START_TIME
      return ServerStatsResponse(
          total_requests=STATS['total_requests'],
          successful_requests=STATS['successful_requests'],
          failed_requests=STATS['failed_requests'],
          success_rate=round(success_rate, 2),
          average_processing_time_ms=round(avg_time, 2),
          loaded_models=list(MODEL_CACHE.keys()),
          uptime_seconds=round(uptime, 2))
  \<close>
\<close>

definition get_server_stats ::
  "('r, 'img, 'w) runtime \<Rightarrow> ('r, 'w) server \<Rightarrow> (exn + ServerStatsResponse) \<times> ('r, 'w) server"
where
  "get_server_stats rt s =
     (let samples = processing_times (STATS s);
          avg_time = (if samples \<noteq> []
                      then fdiv (float_sum rt samples) (of_nat (length samples)) else 0);
          total = total_requests (STATS s);
          rate = (if total > 0
                  then fmul (fdiv (of_int (successful_requests (STATS s))) (of_int total)) 100
                  else 0)
      in case time rt (world s) of (now, w1) \<Rightarrow>
           (Inr \<lparr>r_total_requests = total_requests (STATS s),
                 r_successful_requests = successful_requests (STATS s),
                 r_failed_requests = failed_requests (STATS s),
                 success_rate = py_round rate 2,
                 average_processing_time_ms = py_round avg_time 2,
                 loaded_models = dict_keys (MODEL_CACHE s),
                 uptime_seconds = py_round (fsub now (START_TIME s)) 2\<rparr>,
            s\<lparr>world := w1\<rparr>))"

text \<open>
  \<^verbatim>\<open>
  async def health_check():
      uptime = time.time() - START_TIME
      models_loaded = list(MODEL_CACHE.keys())
      return HealthResponse(status="healthy", models_loaded=models_loaded,
                            uptime_seconds=uptime)
  \<close>
\<close>

definition health_check ::
  "('r, 'img, 'w) runtime \<Rightarrow> ('r, 'w) server \<Rightarrow> (exn + HealthResponse) \<times> ('r, 'w) server"
where
  "health_check rt s =
     (case time rt (world s) of (now, w1) \<Rightarrow>
        (Inr \<lparr>h_status = ''healthy'', models_loaded = dict_keys (MODEL_CACHE s),
              h_uptime_seconds = fsub now (START_TIME s)\<rparr>,
         s\<lparr>world := w1\<rparr>))"

text \<open>
  \<^verbatim>\<open>
  async def get_server_info():
      import torch
      uptime = time.time() - START_TIME
      return ServerInfoResponse(name="EasyOCR2 API Server", version="1.0.0", ...,
          supported_languages=80,
          gpu_available=torch.cuda.is_available() if hasattr(torch, 'cuda') else False,
          uptime_seconds=uptime, endpoints={...})
  \<close>
\<close>

definition get_server_info ::
  "('r, 'img, 'w) runtime \<Rightarrow> ('r, 'w) server \<Rightarrow> (exn + ServerInfoResponse) \<times> ('r, 'w) server"
where
  "get_server_info rt s =
     (case import_torch rt (world s) of
        (Some e, w1) \<Rightarrow> (Inl e, s\<lparr>world := w1\<rparr>)
      | (None, w1) \<Rightarrow>
         (case time rt w1 of (now, w2) \<Rightarrow>
          case cuda_is_available rt w2 of
            (Inl e, w3) \<Rightarrow> (Inl e, s\<lparr>world := w3\<rparr>)
          | (Inr available, w3) \<Rightarrow>
              (Inr \<lparr>name = ''EasyOCR2 API Server'', version = ''1.0.0'',
                    description = ''High-performance OCR API with 80+ language support'',
                    supported_languages = 80, gpu_available = available,
                    i_uptime_seconds = fsub now (START_TIME s),
                    endpoints = [(''docs'', ''/docs''), (''ocr'', ''/api/v1/ocr''),
                      (''health'', ''/api/v1/health''), (''info'', ''/api/v1/info''),
                      (''stats'', ''/api/v1/stats''), (''models'', ''/api/v1/models''),
                      (''warmup'', ''/api/v1/models/warmup'')]\<rparr>,
               s\<lparr>world := w3\<rparr>)))"

text \<open>
  \<^verbatim>\<open>
  async def list_models():
      models = {}
      for key, value in MODEL_CACHE.items():
          models[key] = ModelInfo(languages=value['languages'],
              loaded_at=value['loaded_at'], gpu_enabled=value['gpu_enabled'])
      return {"models": models, "count": len(models)}
  \<close>
\<close>

definition list_models ::
  "('r, 'w) server \<Rightarrow> (exn + (string \<times> ModelInfo) list \<times> int) \<times> ('r, 'w) server"
where
  "list_models s =
     (let models = foldl (\<lambda>d (key, v). dict_set d key
                      \<lparr>m_languages = entry_languages v, m_loaded_at = loaded_at v,
                       m_gpu_enabled = gpu_enabled v\<rparr>) [] (MODEL_CACHE s)
      in (Inr (models, int (length models)), s))"

text \<open>
  The handler of \<open>GET /\<close> returns a fixed dictionary: its string items and its item
  \<open>"endpoints"\<close>.
\<close>

definition root ::
  "('r, 'w) server \<Rightarrow> (exn + (string \<times> string) list \<times> (string \<times> string) list) \<times> ('r, 'w) server"
where
  "root s =
     (Inr ([(''name'', ''EasyOCR2 API Server''), (''version'', ''1.0.0''),
            (''status'', ''running''), (''docs'', ''/docs'')],
           [(''ocr'', ''/api/v1/ocr''), (''health'', ''/api/v1/health''),
            (''info'', ''/api/v1/info''), (''stats'', ''/api/v1/stats''),
            (''models'', ''/api/v1/models'')]), s)"

section \<open>The application around a handler\<close>

text \<open>
  What \<open>call_next\<close> is for a route of the \<open>FastAPI\<close> application: the route's handler
  under the framework's exception layer, which lies inside every middleware added with
  \<open>@app.middleware("http")\<close>. That layer answers an \<open>HTTPException\<close> of the handler
  with an error response of the exception's status code and detail, so \<open>call_next\<close>
  returns that response; any other exception passes through \<open>call_next\<close> to the
  middleware.
\<close>

datatype 'a response =
    Content 'a
  | ErrorContent int string

fun exception_layer :: "(exn + 'a) \<times> 's \<Rightarrow> (exn + 'a response) \<times> 's" where
  "exception_layer (Inl (HTTPException c d), s) = (Inr (ErrorContent c d), s)"
| "exception_layer (Inl (PyException m), s) = (Inl (PyException m), s)"
| "exception_layer (Inl (PyBaseException m), s) = (Inl (PyBaseException m), s)"
| "exception_layer (Inr a, s) = (Inr (Content a), s)"

definition route :: "('s \<Rightarrow> (exn + 'a) \<times> 's) \<Rightarrow> 's \<Rightarrow> (exn + 'a response) \<times> 's" where
  "route handler s = exception_layer (handler s)"

text \<open>
  The routes of the application and what each handler returns. \<open>app\<close> is the
  application inside the middleware, \<open>serve\<close> one HTTP request: the middleware around
  the application.
\<close>

datatype request =
    GetRoot
  | GetHealth
  | GetInfo
  | GetStats
  | GetModels
  | PostOcr OcrRequest
  | PostWarmup "string list" bool

datatype payload =
    RootPayload "(string \<times> string) list" "(string \<times> string) list"
  | HealthPayload HealthResponse
  | InfoPayload ServerInfoResponse
  | StatsPayload ServerStatsResponse
  | ModelsPayload "(string \<times> ModelInfo) list" int
  | OcrPayload OcrResponse
  | WarmupPayload string "string list"

fun wrap :: "('a \<Rightarrow> payload) \<Rightarrow> (exn + 'a) \<times> 's \<Rightarrow> (exn + payload) \<times> 's" where
  "wrap f (r, s) = (map_sum id f r, s)"

fun handler ::
  "('r, 'img, 'w) runtime \<Rightarrow> request \<Rightarrow> ('r, 'w) server \<Rightarrow> (exn + payload) \<times> ('r, 'w) server"
where
  "handler rt GetRoot s = wrap (\<lambda>(items, eps). RootPayload items eps) (root s)"
| "handler rt GetHealth s = wrap HealthPayload (health_check rt s)"
| "handler rt GetInfo s = wrap InfoPayload (get_server_info rt s)"
| "handler rt GetStats s = wrap StatsPayload (get_server_stats rt s)"
| "handler rt GetModels s = wrap (\<lambda>(m, n). ModelsPayload m n) (list_models s)"
| "handler rt (PostOcr request) s = wrap OcrPayload (perform_ocr rt request s)"
| "handler rt (PostWarmup langs use_gpu) s =
     wrap (\<lambda>(st, ls). WarmupPayload st ls) (warmup_model rt langs use_gpu s)"

text \<open>
  Before it calls a handler, FastAPI checks the body of the request against the
  handler's pydantic model. In \<open>OcrRequest\<close> the field that a typed value can still
  violate is \<open>detail: int = Field(default=1, ge=0, le=1)\<close>. A body that fails the check
  is answered with status 422 and the handler is not called.
\<close>

fun valid :: "request \<Rightarrow> bool" where
  "valid (PostOcr request) = (0 \<le> detail request \<and> detail request \<le> 1)"
| "valid GetRoot = True"
| "valid GetHealth = True"
| "valid GetInfo = True"
| "valid GetStats = True"
| "valid GetModels = True"
| "valid (PostWarmup langs use_gpu) = True"

definition app ::
  "('r, 'img, 'w) runtime \<Rightarrow> request \<Rightarrow> ('r, 'w) server
     \<Rightarrow> (exn + payload response) \<times> ('r, 'w) server"
where
  "app rt req s =
     (if valid req then route (handler rt req) s
      else (Inr (ErrorContent 422 ''Unprocessable Entity''), s))"

definition serve ::
  "('r, 'img, 'w) runtime \<Rightarrow> request \<Rightarrow> ('r, 'w) server
     \<Rightarrow> (exn + payload response) \<times> ('r, 'w) server"
where
  "serve rt req = track_requests rt (app rt req)"

text \<open>The server takes the requests of a list one after the other.\<close>

fun serve_all ::
  "('r, 'img, 'w) runtime \<Rightarrow> request list \<Rightarrow> ('r, 'w) server \<Rightarrow> ('r, 'w) server"
where
  "serve_all rt [] s = s"
| "serve_all rt (req # reqs) s = serve_all rt reqs (snd (serve rt req s))"

text \<open>
  The state when the module has been loaded: \<open>MODEL_CACHE = {}\<close>, the counters of
  \<open>STATS\<close> at 0 with no sample, \<open>START_TIME = time.time()\<close>.
\<close>

definition initial_server :: "('r, 'img, 'w) runtime \<Rightarrow> 'w \<Rightarrow> ('r, 'w) server" where
  "initial_server rt w =
     (case time rt w of (now, w1) \<Rightarrow>
        \<lparr>MODEL_CACHE = [],
         STATS = \<lparr>total_requests = 0, successful_requests = 0, failed_requests = 0,
                  processing_times = []\<rparr>,
         START_TIME = now, world = w1\<rparr>)"

section \<open>A test double of the OCR library\<close>

text \<open>
  A runtime to run the handlers on: its world is a clock tick and the number of calls of
  \<open>Reader\<close> so far. \<open>Reader\<close> raises for the language code \<open>xx\<close>, and for the
  code \<open>yy\<close> when it is the first call of \<open>Reader\<close>; otherwise it returns a reader
  that remembers the languages and the accelerator flag it was built with and the
  number of its build; \<open>open_image\<close> rejects the empty string; \<open>readtext\<close> raises
  on the image \<open>blank\<close> and otherwise finds one span.
\<close>

record stub_reader =
  built_languages :: "string list"
  built_gpu :: bool
  build_number :: nat

definition stub :: "(stub_reader, string, nat \<times> nat) runtime" where
  "stub =
     \<lparr>Reader = (\<lambda>langs g (t, n).
         if ''xx'' \<in> set langs then (Inl (PyException ''unsupported language''), (t, n + 1))
         else if ''yy'' \<in> set langs \<and> n = 0 then (Inl (PyException ''download failed''), (t, n + 1))
         else (Inr \<lparr>built_languages = langs, built_gpu = g, build_number = n\<rparr>, (t, n + 1))),
      readtext = (\<lambda>rd img d w.
         if img = ''blank'' then (Inl (PyException ''recognition failed''), w)
         else if d = 0 then (Inr [Text ''HI''], w)
         else (Inr [Span [(0, 0), (10, 0), (10, 10), (0, 10)] ''HI'' (19 / 20)], w)),
      open_image = (\<lambda>b. if b = [] then Inl (PyException ''cannot identify image file'') else Inr b),
      time = (\<lambda>(t, n). (of_nat t, (t + 1, n))),
      uuid4 = (\<lambda>w. (''id'', w)),
      isoformat_now = (\<lambda>w. (''now'', w)),
      http_str = (\<lambda>c d. d),
      import_torch = (\<lambda>w. (None, w)),
      cuda_is_available = (\<lambda>w. (Inr False, w)),
      float_sum = foldl (\<lambda>a x. fl (a + x)) 0\<rparr>"

definition stub_initial :: "(stub_reader, nat \<times> nat) server" where
  "stub_initial = initial_server stub (0, 0)"

text \<open>The same runtime on a machine where \<open>import torch\<close> fails.\<close>

definition stub_no_torch :: "(stub_reader, string, nat \<times> nat) runtime" where
  "stub_no_torch =
     stub\<lparr>import_torch := (\<lambda>w. (Some (PyException ''No module named torch''), w))\<rparr>"

text \<open>The state after a first call has built and cached the model for \<open>["en"]\<close>.\<close>

definition stub_warm :: "(stub_reader, nat \<times> nat) server" where
  "stub_warm = snd (get_or_create_model stub [''en''] True stub_initial)"

text \<open>
  A request with a readable image, the state after it has been served on a fresh server,
  and a state whose window of durations is full.
\<close>

definition stub_request :: OcrRequest where
  "stub_request = \<lparr>req_image = ''img'', languages = [''en''], detail = 1, gpu = True\<rparr>"

definition stub_served :: "(stub_reader, nat \<times> nat) server" where
  "stub_served = snd (serve stub (PostOcr stub_request) stub_initial)"

definition stub_full :: "(stub_reader, nat \<times> nat) server" where
  "stub_full =
     stub_initial\<lparr>STATS := \<lparr>total_requests = 1000, successful_requests = 1000,
       failed_requests = 0, processing_times = replicate 1000 5\<rparr>\<rparr>"

section \<open>Properties of the cache key\<close>

lemma sort_eq_of_mset_eq:
  fixes xs ys :: "string list"
  assumes "mset xs = mset ys"
  shows "sort xs = sort ys"
  by (rule properties_for_sort) (simp_all add: assms)


section \<open>Rounding to a float\<close>

text \<open>
  \<open>ilog2\<close> finds the binade of a positive number, so \<open>fl\<close> rounds to 53 significant
  bits; integers below \<open>2 ^ 53\<close> are floats.
\<close>

lemma pow2_powi: "pow2 k = 2 powi k"
  by (simp add: pow2_def power_int_def field_simps)

lemma pow2_pos: "0 < pow2 k"
  by (simp add: pow2_powi)

lemma pow2_add: "pow2 (a + b) = pow2 a * pow2 b"
  by (simp add: pow2_powi power_int_add)

lemma pow2_diff: "pow2 (a - b) = pow2 a / pow2 b"
  by (simp add: pow2_powi power_int_diff)

lemma pow2_mono: "a \<le> b \<Longrightarrow> pow2 a \<le> pow2 b"
  by (simp add: pow2_powi power_int_increasing)

lemma pow2_strict_mono: "a < b \<Longrightarrow> pow2 a < pow2 b"
  by (simp add: pow2_powi power_int_strict_increasing)

lemma pow2_less_iff: "pow2 a < pow2 b \<longleftrightarrow> a < b"
  using pow2_mono [of b a] pow2_strict_mono [of a b] by (auto simp: not_le [symmetric])

lemma pow2_nat: "pow2 (int n) = 2 ^ n"
  by (simp add: pow2_def)

lemma rat_of_quotient:
  assumes "quotient_of x = (p, q)"
  shows "x = of_int p / of_int q" and "0 < q"
  using assms quotient_of_div [of x p q] quotient_of_denom_pos [of x p q] by auto

lemma ilog2_bounds:
  assumes "0 < x"
  shows "pow2 (ilog2 x) \<le> x \<and> x < pow2 (ilog2 x + 1)"
proof -
  obtain p q where pq: "quotient_of x = (p, q)" by (cases "quotient_of x")
  from rat_of_quotient [OF pq] have x: "x = of_int p / of_int q" and q: "0 < q" by auto
  with assms have p: "0 < p" by (simp add: zero_less_divide_iff)
  define bp where "bp = floorlog 2 (nat p)"
  define bq where "bq = floorlog 2 (nat q)"
  from floorlog_bounds [of "nat p" 2] p
  have p1: "2 ^ (bp - 1) \<le> nat p" and p2: "nat p < 2 ^ bp" by (auto simp: bp_def)
  from floorlog_bounds [of "nat q" 2] q
  have q1: "2 ^ (bq - 1) \<le> nat q" and q2: "nat q < 2 ^ bq" by (auto simp: bq_def)
  have bp0: "0 < bp" using p2 p by (cases bp) auto
  have bq0: "0 < bq" using q2 q by (cases bq) auto
  have P1: "(2::rat) ^ (bp - 1) \<le> of_int p"
  proof -
    have "(2::rat) ^ (bp - 1) = of_nat (2 ^ (bp - 1))" by simp
    also have "\<dots> \<le> of_nat (nat p)" using p1 by (simp only: of_nat_le_iff)
    also have "\<dots> = of_int p" using p by simp
    finally show ?thesis .
  qed
  have P2: "of_int p < (2::rat) ^ bp"
  proof -
    have "of_int p = (of_nat (nat p) :: rat)" using p by simp
    also have "\<dots> < of_nat (2 ^ bp)" using p2 by (simp only: of_nat_less_iff)
    finally show ?thesis by simp
  qed
  have Q1: "(2::rat) ^ (bq - 1) \<le> of_int q"
  proof -
    have "(2::rat) ^ (bq - 1) = of_nat (2 ^ (bq - 1))" by simp
    also have "\<dots> \<le> of_nat (nat q)" using q1 by (simp only: of_nat_le_iff)
    also have "\<dots> = of_int q" using q by simp
    finally show ?thesis .
  qed
  have Q2: "of_int q < (2::rat) ^ bq"
  proof -
    have "of_int q = (of_nat (nat q) :: rat)" using q by simp
    also have "\<dots> < of_nat (2 ^ bq)" using q2 by (simp only: of_nat_less_iff)
    finally show ?thesis by simp
  qed
  define k where "k = int bp - int bq"
  have qpos: "(0::rat) < of_int q" using q by simp
  have upper: "x < pow2 (k + 1)"
  proof -
    have "pow2 (k + 1) = pow2 (int bp) / pow2 (int (bq - 1))"
      using bq0 by (simp add: k_def pow2_diff [symmetric] of_nat_diff algebra_simps)
    also have "\<dots> = 2 ^ bp / 2 ^ (bq - 1)" by (simp add: pow2_nat)
    finally have e: "pow2 (k + 1) = 2 ^ bp / 2 ^ (bq - 1)" .
    have "x < 2 ^ bp / of_int q" unfolding x using P2 qpos by (simp add: divide_strict_right_mono)
    also have "\<dots> \<le> 2 ^ bp / 2 ^ (bq - 1)" using Q1 by (simp add: frac_le)
    finally show ?thesis by (simp add: e)
  qed
  have lower: "pow2 (k - 1) < x"
  proof -
    have "pow2 (k - 1) = pow2 (int (bp - 1)) / pow2 (int bq)"
      using bp0 by (simp add: k_def pow2_diff [symmetric] of_nat_diff algebra_simps)
    also have "\<dots> = 2 ^ (bp - 1) / 2 ^ bq" by (simp add: pow2_nat)
    finally have e: "pow2 (k - 1) = 2 ^ (bp - 1) / 2 ^ bq" .
    have "2 ^ (bp - 1) / 2 ^ bq < (2::rat) ^ (bp - 1) / of_int q"
      using Q2 qpos by (simp add: frac_less2)
    also have "\<dots> \<le> x" unfolding x using P1 qpos by (simp add: divide_right_mono)
    finally show ?thesis by (simp add: e)
  qed
  have il: "ilog2 x = (if pow2 k \<le> x then k else k - 1)"
    by (simp add: ilog2_def pq k_def bp_def bq_def Let_def)
  show ?thesis
  proof (cases "pow2 k \<le> x")
    case True
    with il upper show ?thesis by simp
  next
    case False
    with il lower show ?thesis by simp
  qed
qed

lemma ilog2_unique:
  assumes "0 < x" and "pow2 e \<le> x" and "x < pow2 (e + 1)"
  shows "ilog2 x = e"
proof -
  from ilog2_bounds [OF assms(1)]
  have a: "pow2 (ilog2 x) \<le> x" and b: "x < pow2 (ilog2 x + 1)" by auto
  from a assms(3) have "pow2 (ilog2 x) < pow2 (e + 1)" by simp
  then have "ilog2 x < e + 1" by (simp only: pow2_less_iff)
  moreover from assms(2) b have "pow2 e < pow2 (ilog2 x + 1)" by simp
  then have "e < ilog2 x + 1" by (simp only: pow2_less_iff)
  ultimately show ?thesis by simp
qed

lemma fl_eq:
  assumes "pow2 e \<le> \<bar>x\<bar>" and "\<bar>x\<bar> < pow2 (e + 1)" and "- 1022 \<le> e"
  shows "fl x = of_int (round_half_even (x / pow2 (e - 52))) * pow2 (e - 52)"
proof -
  have "0 < \<bar>x\<bar>" using assms(1) pow2_pos [of e] by linarith
  then have nz: "x \<noteq> 0" by simp
  from ilog2_unique [OF \<open>0 < \<bar>x\<bar>\<close> assms(1,2)] have "ilog2 \<bar>x\<bar> = e" .
  with assms(3) nz show ?thesis by (simp add: fl_def Let_def max_def)
qed

lemma round_half_even_of_int: "round_half_even (of_int n) = n"
  by (simp add: round_half_even_def)

lemma round_half_even_near:
  assumes "of_int n - 1 / 2 < x" and "x < of_int n + 1 / 2"
  shows "round_half_even x = n"
proof (cases "of_int n \<le> x")
  case True
  with assms have f: "\<lfloor>x\<rfloor> = n" by (simp add: floor_eq_iff)
  with assms show ?thesis by (simp add: round_half_even_def Let_def)
next
  case False
  with assms have f: "\<lfloor>x\<rfloor> = n - 1" by (simp add: floor_eq_iff)
  have "1 / 2 < x - of_int (n - 1)" using assms by simp
  with f show ?thesis by (simp add: round_half_even_def Let_def)
qed

lemma round_half_even_error: "\<bar>x - of_int (round_half_even x)\<bar> \<le> 1 / 2"
proof -
  have "of_int \<lfloor>x\<rfloor> \<le> x" "x < of_int \<lfloor>x\<rfloor> + 1" by linarith+
  then show ?thesis
    by (auto simp: round_half_even_def Let_def abs_le_iff)
qed


lemma fl_of_int:
  assumes "\<bar>n\<bar> < 2 ^ 53"
  shows "fl (of_int n) = of_int n"
proof (cases "n = 0")
  case True
  then show ?thesis by (simp add: fl_def)
next
  case False
  define x :: rat where "x = \<bar>of_int n\<bar>"
  have x1: "1 \<le> x" using False by (simp add: x_def flip: of_int_abs)
  have x2: "x < 2 ^ 53"
  proof -
    have "x = of_int \<bar>n\<bar>" by (simp add: x_def)
    also have "\<dots> < of_int (2 ^ 53)" using assms by (simp only: of_int_less_iff)
    finally show ?thesis by simp
  qed
  define e where "e = ilog2 x"
  have xpos: "0 < x" using x1 by simp
  from ilog2_bounds [OF xpos] have lo: "pow2 e \<le> x" and hi: "x < pow2 (e + 1)"
    by (simp_all add: e_def)
  have "pow2 0 < pow2 (e + 1)" using x1 hi by (simp add: pow2_def)
  then have e0: "0 \<le> e" by (simp add: pow2_less_iff)
  have "pow2 e < pow2 53" using lo x2 by (simp add: pow2_def)
  then have e52: "e \<le> 52" by (simp add: pow2_less_iff)
  define m where "m = nat (52 - e)"
  have u: "pow2 (e - 52) = 1 / 2 ^ m"
    using e52 by (cases "e = 52") (simp_all add: pow2_def m_def)
  have "of_int n / pow2 (e - 52) = (of_int (n * 2 ^ m) :: rat)"
    by (simp add: u)
  then have r: "round_half_even (of_int n / pow2 (e - 52)) = n * 2 ^ m"
    by (simp only: round_half_even_of_int)
  have "fl (of_int n) = of_int (round_half_even (of_int n / pow2 (e - 52))) * pow2 (e - 52)"
    using lo hi e0 by (intro fl_eq) (simp_all add: x_def)
  also have "\<dots> = of_int (n * 2 ^ m) * pow2 (e - 52)" by (simp only: r)
  also have "\<dots> = of_int (n * 2 ^ m) * (1 / 2 ^ m)" by (simp only: u)
  also have "\<dots> = of_int n" by simp
  finally show ?thesis .
qed

lemma fl_numeral: "numeral k < (9007199254740992::int) \<Longrightarrow> fl (numeral k) = numeral k"
  using fl_of_int [of "numeral k"] by simp

lemma fl_0: "fl 0 = 0" by (simp add: fl_def)
lemma fl_1: "fl 1 = 1" using fl_of_int [of 1] by simp

text \<open>The value of \<open>fl\<close> from the binade \<open>e\<close> and the significand \<open>n\<close>.\<close>

lemma fl_value:
  assumes "pow2 e \<le> \<bar>x\<bar>" and "\<bar>x\<bar> < pow2 (e + 1)" and "- 1022 \<le> e"
    and "of_int n - 1 / 2 < x / pow2 (e - 52)" and "x / pow2 (e - 52) < of_int n + 1 / 2"
  shows "fl x = of_int n * pow2 (e - 52)"
  using fl_eq [OF assms(1-3)] round_half_even_near [OF assms(4,5)] by simp

lemma py_round_value:
  assumes "of_int k - 1 / 2 < x * 10 ^ n" and "x * 10 ^ n < of_int k + 1 / 2"
  shows "py_round x n = fl (of_int k / 10 ^ n)"
  using round_half_even_near [OF assms] by (simp add: py_round_def)

lemma py_round_0: "py_round 0 n = 0"
  by (simp add: py_round_def round_half_even_def fl_0)

text \<open>
  What \<open>round(x, 2)\<close> returns is the float nearest to a number of two decimals that is
  within 0.005 of \<open>x\<close>.
\<close>

lemma py_round_two_decimals:
  "\<exists>k. py_round x 2 = fl (of_int k / 100) \<and> \<bar>x - of_int k / 100\<bar> \<le> 1 / 200"
proof -
  define k where "k = round_half_even (x * 100)"
  have "\<bar>x * 100 - of_int k\<bar> \<le> 1 / 2"
    unfolding k_def by (rule round_half_even_error)
  then have "\<bar>x - of_int k / 100\<bar> \<le> 1 / 200"
    by (simp add: abs_le_iff field_simps)
  moreover have "py_round x 2 = fl (of_int k / 100)"
    by (simp add: py_round_def k_def)
  ultimately show ?thesis by blast
qed

section \<open>Dictionaries\<close>

lemma update_absent:
  "map_of d k = None \<Longrightarrow> AList.update k v d = d @ [(k, v)]"
  by (induction d) (auto split: if_splits)

lemma dict_get_dict_set: "dict_get (dict_set d k v) k = Inr v"
  by (simp add: dict_get_def dict_set_def update_conv')

lemma dict_set_absent:
  "\<not> dict_contains d k \<Longrightarrow> dict_set d k v = d @ [(k, v)]"
  by (simp add: dict_contains_def dict_set_def update_absent)

lemma dict_get_snoc: "\<not> dict_contains d k \<Longrightarrow> dict_get (d @ [(k, v)]) k = Inr v"
  using dict_get_dict_set [of d k v] by (simp add: dict_set_absent)

lemma dict_contains_iff_get: "dict_contains d k \<longleftrightarrow> (\<exists>v. dict_get d k = Inr v)"
  by (auto simp: dict_contains_def dict_get_def split: option.splits)

section \<open>The three ways through \<open>get_or_create_model\<close>\<close>

text \<open>The key is cached: the cached reader is returned and nothing changes.\<close>

lemma get_or_create_model_hit:
  assumes "dict_get (MODEL_CACHE s) (get_model_key langs) = Inr e"
  shows "get_or_create_model rt langs g s = (Inr (reader e), s)"
  using assms dict_contains_iff_get [of "MODEL_CACHE s" "get_model_key langs"]
  by (simp add: get_or_create_model_def)

text \<open>The key is not cached and \<open>Reader\<close> raises: only the world has changed.\<close>

lemma get_or_create_model_miss_fail:
  assumes "\<not> dict_contains (MODEL_CACHE s) (get_model_key langs)"
    and "time rt (world s) = (t0, w1)"
    and "Reader rt langs g w1 = (Inl e, w2)"
  shows "get_or_create_model rt langs g s =
           (Inl (if is_Exception e
                 then HTTPException 500 (''Failed to load model: '' @ str rt e) else e),
            s\<lparr>world := w2\<rparr>)"
  using assms by (simp add: get_or_create_model_def)

text \<open>The key is not cached and \<open>Reader\<close> returns: the new entry goes last.\<close>

lemma get_or_create_model_miss_ok:
  assumes "\<not> dict_contains (MODEL_CACHE s) (get_model_key langs)"
    and "time rt (world s) = (t0, w1)"
    and "Reader rt langs g w1 = (Inr rd, w2)"
    and "time rt w2 = (t1, w3)"
    and "time rt w3 = (t2, w4)"
  shows "get_or_create_model rt langs g s =
           (Inr rd,
            s\<lparr>MODEL_CACHE := MODEL_CACHE s @ [(get_model_key langs,
                  \<lparr>reader = rd, entry_languages = langs, loaded_at = t1, gpu_enabled = g\<rparr>)],
              world := w4\<rparr>)"
  using assms by (simp add: get_or_create_model_def Let_def dict_get_snoc dict_set_absent)

text \<open>A call that returns a reader leaves that reader cached under the key.\<close>

lemma get_or_create_model_cached_after:
  assumes "get_or_create_model rt langs g s = (Inr rd, s1)"
  shows "\<exists>e. dict_get (MODEL_CACHE s1) (get_model_key langs) = Inr e \<and> reader e = rd
            \<and> (\<not> dict_contains (MODEL_CACHE s) (get_model_key langs) \<longrightarrow> gpu_enabled e = g)"
proof (cases "dict_contains (MODEL_CACHE s) (get_model_key langs)")
  case True
  then obtain e where e: "dict_get (MODEL_CACHE s) (get_model_key langs) = Inr e"
    by (auto simp: dict_contains_iff_get)
  from get_or_create_model_hit [OF e, of rt g] assms True e show ?thesis by auto
next
  case False
  obtain t0 w1 where t0: "time rt (world s) = (t0, w1)" by (cases "time rt (world s)")
  obtain r w2 where r: "Reader rt langs g w1 = (r, w2)" by (cases "Reader rt langs g w1")
  obtain t1 w3 where t1: "time rt w2 = (t1, w3)" by (cases "time rt w2")
  obtain t2 w4 where t2: "time rt w3 = (t2, w4)" by (cases "time rt w3")
  show ?thesis
  proof (cases r)
    case (Inl e)
    with get_or_create_model_miss_fail [OF False t0, of g e w2] r assms show ?thesis
      by (auto split: if_splits)
  next
    case (Inr rd')
    with get_or_create_model_miss_ok [OF False t0 _ t1 t2, of g rd'] r assms False
    show ?thesis
      by (auto simp: dict_get_snoc)
  qed
qed

section \<open>Handlers on a cached key\<close>

lemma snd_ocr_except: "snd (ocr_except x) = snd x"
  by (cases x rule: ocr_except.cases) simp_all

lemma ocr_body_cache_hit:
  assumes "dict_get (MODEL_CACHE s) (get_model_key (languages request)) = Inr e"
  shows "MODEL_CACHE (snd (ocr_body rt request rid t s)) = MODEL_CACHE s"
proof -
  have hit: "get_or_create_model rt (languages request) (gpu request) (s\<lparr>world := w\<rparr>)
               = (Inr (reader e), s\<lparr>world := w\<rparr>)" for w
    using assms by (intro get_or_create_model_hit) simp
  show ?thesis
    by (simp add: ocr_body_def hit split: sum.splits prod.splits)
qed

lemma perform_ocr_cache_hit:
  assumes "dict_get (MODEL_CACHE s) (get_model_key (languages request)) = Inr e"
  shows "MODEL_CACHE (snd (perform_ocr rt request s)) = MODEL_CACHE s"
proof -
  have "MODEL_CACHE (snd (ocr_body rt request rid t (s\<lparr>world := w\<rparr>))) = MODEL_CACHE s"
    for rid t w
    using ocr_body_cache_hit [of "s\<lparr>world := w\<rparr>" request e rt rid t] assms by simp
  then show ?thesis
    by (simp add: perform_ocr_def snd_ocr_except split: prod.splits)
qed

lemma warmup_model_hit:
  assumes "dict_get (MODEL_CACHE s) (get_model_key langs) = Inr e"
  shows "warmup_model rt langs g s = (Inr (''success'', langs), s)"
  by (simp add: warmup_model_def get_or_create_model_hit [OF assms])

section \<open>Running the handlers on the test double\<close>

lemmas run_defs =
  stub_def stub_no_torch_def stub_initial_def stub_warm_def stub_request_def stub_served_def get_server_info_def list_models_def
  root_def initial_server_def get_or_create_model_def get_model_key_def
  dict_contains_def dict_get_def dict_set_def dict_keys_def warmup_model_def perform_ocr_def
  ocr_body_def parse_results_def py_int_def track_requests_def record_time_def route_def
  app_def serve_def get_server_stats_def health_check_def Let_def
  fsub_def fmul_def fdiv_def fl_numeral fl_0 fl_1

section \<open>The accelerator preference and the key\<close>

text \<open>
  Claim C2, as the code has it: the key is computed from the language list alone. When a
  call for a language list whose key is not cached has built a model with accelerator
  flag \<open>g1\<close>, a call with the same languages and any flag \<open>g2\<close> returns that same
  reader and changes nothing: the entry still records \<open>g1\<close>, and no model is built
  with \<open>g2\<close>.
\<close>

theorem cache_key_ignores_gpu:
  assumes "\<not> dict_contains (MODEL_CACHE s) (get_model_key langs)"
    and "get_or_create_model rt langs g1 s = (Inr rd, s1)"
  shows "get_or_create_model rt langs g2 s1 = (Inr rd, s1)
       \<and> (\<exists>e. dict_get (MODEL_CACHE s1) (get_model_key langs) = Inr e
              \<and> reader e = rd \<and> gpu_enabled e = g1)"
proof -
  from get_or_create_model_cached_after [OF assms(2)] assms(1)
  obtain e where e: "dict_get (MODEL_CACHE s1) (get_model_key langs) = Inr e"
    "reader e = rd" "gpu_enabled e = g1" by auto
  from get_or_create_model_hit [OF e(1), of rt g2] e show ?thesis by auto
qed

theorem cache_key_ignores_gpu_witness:
  "\<not> dict_contains (MODEL_CACHE stub_initial) (get_model_key [''en''])
   \<and> get_or_create_model stub [''en''] True stub_initial =
       (Inr \<lparr>built_languages = [''en''], built_gpu = True, build_number = 0\<rparr>,
        snd (get_or_create_model stub [''en''] True stub_initial))
   \<and> get_or_create_model stub [''en''] False
       (snd (get_or_create_model stub [''en''] True stub_initial)) =
       (Inr \<lparr>built_languages = [''en''], built_gpu = True, build_number = 0\<rparr>,
        snd (get_or_create_model stub [''en''] True stub_initial))"
proof -
  have miss: "\<not> dict_contains (MODEL_CACHE stub_initial) (get_model_key [''en''])"
    by (simp add: run_defs)
  have first: "get_or_create_model stub [''en''] True stub_initial =
       (Inr \<lparr>built_languages = [''en''], built_gpu = True, build_number = 0\<rparr>,
        snd (get_or_create_model stub [''en''] True stub_initial))"
    by (simp add: run_defs)
  from cache_key_ignores_gpu [OF miss first, of False] miss first show ?thesis by simp
qed

text \<open>
  A request for \<open>["en"]\<close> without the accelerator, after one with it, is handed the
  reader that was built with the accelerator.
\<close>

theorem gpu_key_counterexample:
  "fst (get_or_create_model stub [''en''] False
          (snd (get_or_create_model stub [''en''] True stub_initial)))
     = Inr \<lparr>built_languages = [''en''], built_gpu = True, build_number = 0\<rparr>"
  by (simp add: run_defs)

section \<open>Order and duplicates in the language list\<close>

text \<open>
  Claim C3, as the code has it: two language lists with the same codes the same number
  of times each, in any order, have the same key; so \<open>["en", "fr"]\<close> and
  \<open>["fr", "en"]\<close> do. The key keeps duplicates.
\<close>

theorem get_model_key_permutation:
  assumes "mset xs = mset ys"
  shows "get_model_key xs = get_model_key ys"
  using sort_eq_of_mset_eq [OF assms] by (simp add: get_model_key_def)

theorem get_model_key_permutation_witness:
  "mset [''en'', ''fr''] = mset [''fr'', ''en'']
   \<and> get_model_key [''en'', ''fr''] = get_model_key [''fr'', ''en'']"
proof -
  have h: "mset [''en'', ''fr''] = mset [''fr'', ''en'']" by simp
  from get_model_key_permutation [OF h] h show ?thesis by simp
qed

text \<open>\<open>["en", "en"]\<close> and \<open>["en"]\<close> are the same set of codes and have different keys.\<close>

theorem get_model_key_duplicates_counterexample:
  "set [''en'', ''en''] = set [''en'']
   \<and> get_model_key [''en'', ''en''] \<noteq> get_model_key [''en'']"
  by (simp add: get_model_key_def)

section \<open>The empty language list\<close>

text \<open>
  Claim C5, as the code has it: the key of the empty language list is the empty string,
  and nothing checks the list. When no entry has the empty key,
  \<open>get_or_create_model\<close> calls \<open>Reader\<close> with the empty list, and what it returns is
  what that call gives: the reader, or the error of the build.
\<close>

theorem empty_language_list_builds:
  assumes "\<not> dict_contains (MODEL_CACHE s) []"
    and "time rt (world s) = (t0, w1)"
    and "Reader rt [] g w1 = (r, w2)"
  shows "get_model_key [] = []
       \<and> fst (get_or_create_model rt [] g s) =
           (case r of
              Inl e \<Rightarrow> Inl (if is_Exception e
                             then HTTPException 500 (''Failed to load model: '' @ str rt e) else e)
            | Inr rd \<Rightarrow> Inr rd)"
proof -
  have key: "get_model_key [] = []" by (simp add: get_model_key_def)
  obtain t1 w3 where t1: "time rt w2 = (t1, w3)" by (cases "time rt w2")
  obtain t2 w4 where t2: "time rt w3 = (t2, w4)" by (cases "time rt w3")
  show ?thesis
  proof (cases r)
    case (Inl e)
    with get_or_create_model_miss_fail [of s "[]" rt t0 w1 g e w2] assms key show ?thesis
      by simp
  next
    case (Inr rd)
    with get_or_create_model_miss_ok [of s "[]" rt t0 w1 g rd w2 t1 w3 t2 w4] assms key t1 t2
    show ?thesis by simp
  qed
qed

theorem empty_language_list_builds_witness:
  "get_model_key [] = []
   \<and> fst (get_or_create_model stub [] True stub_initial)
       = Inr \<lparr>built_languages = [], built_gpu = True, build_number = 0\<rparr>"
proof -
  have a: "\<not> dict_contains (MODEL_CACHE stub_initial) []" by (simp add: run_defs)
  have b: "time stub (world stub_initial) = (1, (2, 0))" by (simp add: run_defs)
  have c: "Reader stub [] True (2, 0)
             = (Inr \<lparr>built_languages = [], built_gpu = True, build_number = 0\<rparr>, (2, 1))"
    by (simp add: run_defs)
  from empty_language_list_builds [OF a b c] show ?thesis by simp
qed

text \<open>
  On the empty list the call does not fail, and \<open>Reader\<close> has been called once.
\<close>

theorem empty_language_list_counterexample:
  "\<not> isl (fst (get_or_create_model stub [] True stub_initial))
   \<and> snd (world (snd (get_or_create_model stub [] True stub_initial))) = 1"
  by (simp add: run_defs)

section \<open>A build that fails\<close>

text \<open>
  Claim C6: when the key is not cached and \<open>Reader\<close> raises, \<open>get_or_create_model\<close>
  raises to its caller (an \<open>HTTPException\<close> with status 500 that carries the message of
  the error), the cache is what it was before the call, with no entry for the key, and
  the next call for the same languages calls \<open>Reader\<close> again: it returns the reader
  when that build succeeds and the new error when it fails.
\<close>

theorem build_failure_leaves_cache:
  assumes "\<not> dict_contains (MODEL_CACHE s) (get_model_key langs)"
    and "time rt (world s) = (t0, w1)"
    and "Reader rt langs g w1 = (Inl e, w2)"
  shows "get_or_create_model rt langs g s =
           (Inl (if is_Exception e
                 then HTTPException 500 (''Failed to load model: '' @ str rt e) else e),
            s\<lparr>world := w2\<rparr>)
       \<and> MODEL_CACHE (snd (get_or_create_model rt langs g s)) = MODEL_CACHE s
       \<and> \<not> dict_contains (MODEL_CACHE (snd (get_or_create_model rt langs g s))) (get_model_key langs)
       \<and> (\<forall>g' t1 w3 r w4. time rt w2 = (t1, w3) \<longrightarrow> Reader rt langs g' w3 = (r, w4) \<longrightarrow>
            fst (get_or_create_model rt langs g' (snd (get_or_create_model rt langs g s))) =
              (case r of
                 Inl e' \<Rightarrow> Inl (if is_Exception e'
                                 then HTTPException 500 (''Failed to load model: '' @ str rt e')
                                 else e')
               | Inr rd \<Rightarrow> Inr rd))"
proof -
  let ?s1 = "s\<lparr>world := w2\<rparr>"
  have first: "get_or_create_model rt langs g s =
           (Inl (if is_Exception e
                 then HTTPException 500 (''Failed to load model: '' @ str rt e) else e), ?s1)"
    by (rule get_or_create_model_miss_fail [OF assms])
  have miss1: "\<not> dict_contains (MODEL_CACHE ?s1) (get_model_key langs)"
    using assms(1) by simp
  have again: "fst (get_or_create_model rt langs g' ?s1) =
              (case r of
                 Inl e' \<Rightarrow> Inl (if is_Exception e'
                                 then HTTPException 500 (''Failed to load model: '' @ str rt e')
                                 else e')
               | Inr rd \<Rightarrow> Inr rd)"
    if t: "time rt w2 = (t1, w3)" and r: "Reader rt langs g' w3 = (r, w4)" for g' t1 w3 r w4
  proof (cases r)
    case (Inl e')
    have "time rt (world ?s1) = (t1, w3)" using t by simp
    from get_or_create_model_miss_fail [OF miss1 this, of g' e' w4] r Inl show ?thesis
      by simp
  next
    case (Inr rd)
    have t': "time rt (world ?s1) = (t1, w3)" using t by simp
    obtain t2 w5 where t2: "time rt w4 = (t2, w5)" by (cases "time rt w4")
    obtain t3 w6 where t3: "time rt w5 = (t3, w6)" by (cases "time rt w5")
    from get_or_create_model_miss_ok [OF miss1 t' _ t2 t3, of g' rd] r Inr show ?thesis
      by simp
  qed
  show ?thesis
    using first miss1 again by simp
qed

theorem build_failure_leaves_cache_witness:
  "get_or_create_model stub [''yy''] True stub_initial =
     (Inl (HTTPException 500 ''Failed to load model: download failed''),
      stub_initial\<lparr>world := (2, 1)\<rparr>)
   \<and> MODEL_CACHE (snd (get_or_create_model stub [''yy''] True stub_initial)) = []
   \<and> fst (get_or_create_model stub [''yy''] True
            (snd (get_or_create_model stub [''yy''] True stub_initial)))
       = Inr \<lparr>built_languages = [''yy''], built_gpu = True, build_number = 1\<rparr>"
proof -
  have a: "\<not> dict_contains (MODEL_CACHE stub_initial) (get_model_key [''yy''])"
    by (simp add: run_defs)
  have b: "time stub (world stub_initial) = (1, (2, 0))" by (simp add: run_defs)
  have c: "Reader stub [''yy''] True (2, 0) = (Inl (PyException ''download failed''), (2, 1))"
    by (simp add: run_defs)
  have d: "time stub (2, 1) = (2, (3, 1))" by (simp add: run_defs)
  have e: "Reader stub [''yy''] True (3, 1)
             = (Inr \<lparr>built_languages = [''yy''], built_gpu = True, build_number = 1\<rparr>, (3, 2))"
    by (simp add: run_defs)
  have m: "MODEL_CACHE stub_initial = []" by (simp add: run_defs)
  note main = build_failure_leaves_cache [OF a b c]
  from main have first: "get_or_create_model stub [''yy''] True stub_initial =
     (Inl (HTTPException 500 ''Failed to load model: download failed''),
      stub_initial\<lparr>world := (2, 1)\<rparr>)"
    by simp
  from main have same: "MODEL_CACHE (snd (get_or_create_model stub [''yy''] True stub_initial)) = []"
    using m by simp
  from main have "\<forall>g' t1 w3 r w4. time stub (2, 1) = (t1, w3) \<longrightarrow>
       Reader stub [''yy''] g' w3 = (r, w4) \<longrightarrow>
       fst (get_or_create_model stub [''yy''] g'
             (snd (get_or_create_model stub [''yy''] True stub_initial))) =
         (case r of
            Inl e' \<Rightarrow> Inl (if is_Exception e'
                            then HTTPException 500 (''Failed to load model: '' @ str stub e')
                            else e')
          | Inr rd \<Rightarrow> Inr rd)"
    by blast
  from this d e have again: "fst (get_or_create_model stub [''yy''] True
            (snd (get_or_create_model stub [''yy''] True stub_initial)))
       = Inr \<lparr>built_languages = [''yy''], built_gpu = True, build_number = 1\<rparr>"
    by fastforce
  from first same again show ?thesis by simp
qed

section \<open>A model that is cached\<close>

text \<open>
  Claim C7: when the cache holds an entry for the key of a language list,
  \<open>get_or_create_model\<close> returns the reader of that entry and leaves the whole state,
  the world of \<open>Reader\<close> included, as it was, so \<open>Reader\<close> is not called;
  \<open>warmup_model\<close> succeeds and leaves the state as it was; and \<open>perform_ocr\<close> for
  these languages leaves the cache as it was whatever its outcome, a failure of
  \<open>readtext\<close> included.
\<close>

theorem cached_model_is_reused:
  assumes "dict_get (MODEL_CACHE s) (get_model_key langs) = Inr e"
  shows "get_or_create_model rt langs g s = (Inr (reader e), s)
       \<and> warmup_model rt langs g s = (Inr (''success'', langs), s)
       \<and> (\<forall>request. languages request = langs \<longrightarrow>
            MODEL_CACHE (snd (perform_ocr rt request s)) = MODEL_CACHE s)"
  using assms
  by (simp add: get_or_create_model_hit warmup_model_hit perform_ocr_cache_hit)

theorem cached_model_is_reused_witness:
  "dict_get (MODEL_CACHE stub_warm) (get_model_key [''en''])
     = Inr \<lparr>reader = \<lparr>built_languages = [''en''], built_gpu = True, build_number = 0\<rparr>,
            entry_languages = [''en''], loaded_at = 2, gpu_enabled = True\<rparr>
   \<and> get_or_create_model stub [''en''] True stub_warm
       = (Inr \<lparr>built_languages = [''en''], built_gpu = True, build_number = 0\<rparr>, stub_warm)
   \<and> warmup_model stub [''en''] True stub_warm = (Inr (''success'', [''en'']), stub_warm)
   \<and> fst (perform_ocr stub \<lparr>req_image = ''blank'', languages = [''en''], detail = 1, gpu = True\<rparr>
            stub_warm) = Inl (HTTPException 500 ''recognition failed'')
   \<and> MODEL_CACHE (snd (perform_ocr stub
        \<lparr>req_image = ''blank'', languages = [''en''], detail = 1, gpu = True\<rparr> stub_warm))
       = MODEL_CACHE stub_warm"
proof -
  have a: "dict_get (MODEL_CACHE stub_warm) (get_model_key [''en''])
     = Inr \<lparr>reader = \<lparr>built_languages = [''en''], built_gpu = True, build_number = 0\<rparr>,
            entry_languages = [''en''], loaded_at = 2, gpu_enabled = True\<rparr>"
    by (simp add: run_defs)
  have b: "fst (perform_ocr stub \<lparr>req_image = ''blank'', languages = [''en''], detail = 1, gpu = True\<rparr>
            stub_warm) = Inl (HTTPException 500 ''recognition failed'')"
    by (simp add: run_defs)
  from cached_model_is_reused [OF a, of stub True] a b show ?thesis
    by simp
qed


section \<open>The middleware\<close>

text \<open>One run of \<open>track_requests\<close>, given what \<open>call_next\<close> does.\<close>

lemma track_requests_run:
  assumes "uuid4 rt (world s) = (rid, w1)"
    and "time rt w1 = (t0, w2)"
    and "call_next (s\<lparr>world := w2\<rparr>) = (outcome, s1)"
    and "time rt (world s1) = (t1, w3)"
  shows "track_requests rt call_next s =
           (outcome,
            s1\<lparr>STATS :=
                 \<lparr>total_requests = total_requests (STATS s1) + 1,
                  successful_requests =
                    successful_requests (STATS s1) + (if isl outcome then 0 else 1),
                  failed_requests =
                    failed_requests (STATS s1)
                      + (case outcome of Inl e \<Rightarrow> if is_Exception e then 1 else 0 | Inr a \<Rightarrow> 0),
                  processing_times =
                    record_time (fmul (fsub t1 t0) 1000) (processing_times (STATS s1))\<rparr>,
               world := w3\<rparr>)"
  using assms by (cases outcome) (simp_all add: track_requests_def Let_def)

lemma get_or_create_model_STATS:
  "STATS (snd (get_or_create_model rt langs g s)) = STATS s"
  by (simp add: get_or_create_model_def Let_def split: prod.splits sum.splits)

lemma ocr_body_STATS: "STATS (snd (ocr_body rt request rid t s)) = STATS s"
proof -
  have g: "get_or_create_model rt (languages request) (gpu request) s0 = (r, s1)
             \<Longrightarrow> STATS s1 = STATS s0" for s0 r s1
    using get_or_create_model_STATS [of rt "languages request" "gpu request" s0] by simp
  show ?thesis
    by (auto simp: ocr_body_def split: sum.splits prod.splits dest!: g)
qed

lemma perform_ocr_STATS: "STATS (snd (perform_ocr rt request s)) = STATS s"
  by (simp add: perform_ocr_def snd_ocr_except ocr_body_STATS split: prod.splits)

lemma warmup_model_STATS: "STATS (snd (warmup_model rt langs g s)) = STATS s"
  using get_or_create_model_STATS [of rt langs g s]
  by (auto simp: warmup_model_def split: prod.splits sum.splits)

lemma snd_wrap: "snd (wrap f x) = snd x"
  by (cases x) simp

lemma handler_STATS: "STATS (snd (handler rt req s)) = STATS s"
  by (cases req)
     (simp_all add: snd_wrap root_def health_check_def get_server_info_def get_server_stats_def
        list_models_def perform_ocr_STATS warmup_model_STATS Let_def
        split: prod.splits sum.splits option.splits)

lemma snd_exception_layer: "snd (exception_layer x) = snd x"
  by (cases x rule: exception_layer.cases) simp_all

lemma app_STATS: "STATS (snd (app rt req s)) = STATS s"
  by (simp add: app_def route_def snd_exception_layer handler_STATS)

text \<open>What \<open>record_time\<close> does to the window, written out.\<close>

lemma record_time_eq:
  "record_time d w = (if length w < 1000 then w @ [d] else tl w @ [d])"
  by (cases w) (simp_all add: record_time_def Let_def)

text \<open>
  Claim C10: a request to any route (\<open>GET /api/v1/stats\<close> and \<open>GET /api/v1/health\<close>
  as much as \<open>POST /api/v1/ocr\<close>) that completes, with a response or with an
  \<open>Exception\<close>, adds one to \<open>total_requests\<close>, adds one to exactly one of
  \<open>successful_requests\<close> and \<open>failed_requests\<close>, and appends one sample to the
  window of durations: the time between the two readings of the clock around the
  application, in milliseconds, put last, the oldest sample leaving when the window
  already held 1000. So if \<open>total_requests = successful_requests + failed_requests\<close>
  held before the request, it holds after it.
\<close>

theorem serve_counts_every_request:
  assumes "serve rt req s = (outcome, s')"
    and "case outcome of Inl e \<Rightarrow> is_Exception e | Inr response \<Rightarrow> True"
    and "uuid4 rt (world s) = (rid, w1)"
    and "time rt w1 = (t0, w2)"
    and "app rt req (s\<lparr>world := w2\<rparr>) = (out, s1)"
    and "time rt (world s1) = (t1, w3)"
  shows "total_requests (STATS s') = total_requests (STATS s) + 1
       \<and> (successful_requests (STATS s') = successful_requests (STATS s) + 1
            \<and> failed_requests (STATS s') = failed_requests (STATS s)
          \<or> successful_requests (STATS s') = successful_requests (STATS s)
            \<and> failed_requests (STATS s') = failed_requests (STATS s) + 1)
       \<and> processing_times (STATS s') =
            (if length (processing_times (STATS s)) < 1000
             then processing_times (STATS s) @ [fmul (fsub t1 t0) 1000]
             else tl (processing_times (STATS s)) @ [fmul (fsub t1 t0) 1000])
       \<and> (total_requests (STATS s) = successful_requests (STATS s) + failed_requests (STATS s)
            \<longrightarrow> total_requests (STATS s')
                  = successful_requests (STATS s') + failed_requests (STATS s'))"
proof -
  have st: "STATS s1 = STATS s"
    using app_STATS [of rt req "s\<lparr>world := w2\<rparr>"] assms(5) by simp
  have run: "serve rt req s =
           (out,
            s1\<lparr>STATS :=
                 \<lparr>total_requests = total_requests (STATS s1) + 1,
                  successful_requests =
                    successful_requests (STATS s1) + (if isl out then 0 else 1),
                  failed_requests =
                    failed_requests (STATS s1)
                      + (case out of Inl e \<Rightarrow> if is_Exception e then 1 else 0 | Inr a \<Rightarrow> 0),
                  processing_times =
                    record_time (fmul (fsub t1 t0) 1000) (processing_times (STATS s1))\<rparr>,
               world := w3\<rparr>)"
    unfolding serve_def
    by (rule track_requests_run [where call_next = "app rt req", OF assms(3,4,5,6)])
  show ?thesis
  proof (cases out)
    case (Inl e)
    with run assms(1,2) st show ?thesis by (auto simp: record_time_eq)
  next
    case (Inr a)
    with run assms(1,2) st show ?thesis by (auto simp: record_time_eq)
  qed
qed



theorem serve_counts_every_request_witness:
  "STATS (snd (serve stub GetStats stub_served))
     = \<lparr>total_requests = 2, successful_requests = 2, failed_requests = 0,
        processing_times = [10000, 2000]\<rparr>
   \<and> STATS (snd (serve stub_no_torch GetInfo stub_initial))
     = \<lparr>total_requests = 1, successful_requests = 0, failed_requests = 1,
        processing_times = [1000]\<rparr>
   \<and> processing_times (STATS (snd (serve stub GetHealth stub_full)))
     = replicate 999 5 @ [2000]"
proof -
  have served: "STATS stub_served
     = \<lparr>total_requests = 1, successful_requests = 1, failed_requests = 0,
        processing_times = [10000]\<rparr>"
    and served_world: "world stub_served = (12, 1)"
    by (simp_all add: run_defs)
  have a1: "serve stub GetStats stub_served
              = (fst (serve stub GetStats stub_served), snd (serve stub GetStats stub_served))"
    by simp
  have a2: "case fst (serve stub GetStats stub_served) of
              Inl e \<Rightarrow> is_Exception e | Inr response \<Rightarrow> True"
    by (simp add: run_defs split: prod.splits)
  have a3: "uuid4 stub (world stub_served) = (''id'', (12, 1))"
    by (simp add: served_world) (simp add: stub_def)
  have a4: "time stub (12, 1) = (12, (13, 1))" by (simp add: stub_def)
  have a5: "app stub GetStats (stub_served\<lparr>world := (13, 1)\<rparr>)
              = (fst (app stub GetStats (stub_served\<lparr>world := (13, 1)\<rparr>)),
                 snd (app stub GetStats (stub_served\<lparr>world := (13, 1)\<rparr>)))"
    by simp
  have a6: "time stub (world (snd (app stub GetStats (stub_served\<lparr>world := (13, 1)\<rparr>))))
              = (14, (15, 1))"
    by (simp add: app_def route_def get_server_stats_def snd_exception_layer snd_wrap stub_def
          Let_def split: prod.splits)
  have a7: "successful_requests (STATS (snd (serve stub GetStats stub_served))) = 2"
    using served
    by (simp add: serve_def track_requests_def app_def route_def get_server_stats_def
          stub_def Let_def served_world split: prod.splits)
  have d: "fmul (fsub 14 12) 1000 = 2000"
    by (simp add: fmul_def fsub_def fl_numeral)
  from serve_counts_every_request [OF a1 a2 a3 a4 a5 a6] served a7 d
  have first: "STATS (snd (serve stub GetStats stub_served))
     = \<lparr>total_requests = 2, successful_requests = 2, failed_requests = 0,
        processing_times = [10000, 2000]\<rparr>"
    by (cases "STATS (snd (serve stub GetStats stub_served))") simp
  have second: "STATS (snd (serve stub_no_torch GetInfo stub_initial))
     = \<lparr>total_requests = 1, successful_requests = 0, failed_requests = 1,
        processing_times = [1000]\<rparr>"
    by (simp add: run_defs)
  have c1: "serve stub GetHealth stub_full
              = (fst (serve stub GetHealth stub_full), snd (serve stub GetHealth stub_full))"
    by simp
  have c2: "case fst (serve stub GetHealth stub_full) of
              Inl e \<Rightarrow> is_Exception e | Inr response \<Rightarrow> True"
    by (simp add: run_defs stub_full_def split: prod.splits)
  have c3: "uuid4 stub (world stub_full) = (''id'', (1, 0))"
    by (simp add: run_defs stub_full_def)
  have c4: "time stub (1, 0) = (1, (2, 0))" by (simp add: stub_def)
  have c5: "app stub GetHealth (stub_full\<lparr>world := (2, 0)\<rparr>)
              = (fst (app stub GetHealth (stub_full\<lparr>world := (2, 0)\<rparr>)),
                 snd (app stub GetHealth (stub_full\<lparr>world := (2, 0)\<rparr>)))"
    by simp
  have c6: "time stub (world (snd (app stub GetHealth (stub_full\<lparr>world := (2, 0)\<rparr>))))
              = (3, (4, 0))"
    by (simp add: run_defs stub_full_def)
  have full: "processing_times (STATS stub_full) = replicate 1000 5"
    by (simp add: stub_full_def)
  have d': "fmul (fsub 3 1) 1000 = 2000"
    by (simp add: fmul_def fsub_def fl_numeral)
  from serve_counts_every_request [OF c1 c2 c3 c4 c5 c6] full d'
  have third: "processing_times (STATS (snd (serve stub GetHealth stub_full)))
     = replicate 999 5 @ [2000]"
    by simp
  from first second third show ?thesis by simp
qed


section \<open>Failures of an OCR request in the statistics\<close>

text \<open>Every way \<open>get_or_create_model\<close> raises an \<open>Exception\<close> is an \<open>HTTPException\<close>.\<close>

lemma get_or_create_model_raises:
  assumes "get_or_create_model rt langs g s = (Inl e, s1)" and "is_Exception e"
  shows "is_HTTPException e"
proof (cases "dict_contains (MODEL_CACHE s) (get_model_key langs)")
  case True
  then obtain en where "dict_get (MODEL_CACHE s) (get_model_key langs) = Inr en"
    by (auto simp: dict_contains_iff_get)
  from get_or_create_model_hit [OF this, of rt g] assms show ?thesis by simp
next
  case False
  obtain t0 w1 where t0: "time rt (world s) = (t0, w1)" by (cases "time rt (world s)")
  obtain r w2 where r: "Reader rt langs g w1 = (r, w2)" by (cases "Reader rt langs g w1")
  obtain t1 w3 where t1: "time rt w2 = (t1, w3)" by (cases "time rt w2")
  obtain t2 w4 where t2: "time rt w3 = (t2, w4)" by (cases "time rt w3")
  show ?thesis
  proof (cases r)
    case (Inl e')
    with get_or_create_model_miss_fail [OF False t0, of g e' w2] r assms show ?thesis
      by (auto split: if_splits)
  next
    case (Inr rd)
    with get_or_create_model_miss_ok [OF False t0 _ t1 t2, of g rd] r assms show ?thesis
      by simp
  qed
qed

lemma ocr_except_raises:
  assumes "ocr_except x = (Inl e, s1)" and "is_Exception e"
  shows "is_HTTPException e"
  using assms by (cases x rule: ocr_except.cases) auto

lemma perform_ocr_raises:
  assumes "perform_ocr rt request s = (Inl e, s1)" and "is_Exception e"
  shows "is_HTTPException e"
  using assms
  by (auto simp: perform_ocr_def split: prod.splits dest: ocr_except_raises)

text \<open>So the middleware counts every OCR request that completes as a success.\<close>

lemma ocr_request_counted_as_success:
  assumes "serve rt (PostOcr request) s = (outcome, s')"
    and "case outcome of Inl e \<Rightarrow> is_Exception e | Inr response \<Rightarrow> True"
  shows "\<not> isl outcome
       \<and> successful_requests (STATS s') = successful_requests (STATS s) + 1
       \<and> failed_requests (STATS s') = failed_requests (STATS s)"
proof -
  obtain rid w1 where u: "uuid4 rt (world s) = (rid, w1)" by (cases "uuid4 rt (world s)")
  obtain t0 w2 where t0: "time rt w1 = (t0, w2)" by (cases "time rt w1")
  obtain r s0 where p: "perform_ocr rt request (s\<lparr>world := w2\<rparr>) = (r, s0)"
    by (cases "perform_ocr rt request (s\<lparr>world := w2\<rparr>)")
  obtain out s1 where c: "app rt (PostOcr request) (s\<lparr>world := w2\<rparr>) = (out, s1)"
    by (cases "app rt (PostOcr request) (s\<lparr>world := w2\<rparr>)")
  obtain t1 w3 where t1: "time rt (world s1) = (t1, w3)" by (cases "time rt (world s1)")
  have st: "STATS s1 = STATS s"
    using app_STATS [of rt "PostOcr request" "s\<lparr>world := w2\<rparr>"] c by simp
  have run: "serve rt (PostOcr request) s =
           (out,
            s1\<lparr>STATS :=
                 \<lparr>total_requests = total_requests (STATS s1) + 1,
                  successful_requests =
                    successful_requests (STATS s1) + (if isl out then 0 else 1),
                  failed_requests =
                    failed_requests (STATS s1)
                      + (case out of Inl e \<Rightarrow> if is_Exception e then 1 else 0 | Inr a \<Rightarrow> 0),
                  processing_times =
                    record_time (fmul (fsub t1 t0) 1000) (processing_times (STATS s1))\<rparr>,
               world := w3\<rparr>)"
    unfolding serve_def
    by (rule track_requests_run
          [where call_next = "app rt (PostOcr request)", OF u t0 c t1])
  have not_raised: "\<not> isl out"
  proof
    assume "isl out"
    then obtain e where e: "out = Inl e" by (cases out) auto
    with run assms have exc: "is_Exception e" by auto
    from c e have v: "valid (PostOcr request)"
      by (auto simp: app_def split: if_splits)
    with c e p have "r = Inl e"
      by (cases r; cases "projl r") (auto simp: app_def route_def)
    with p perform_ocr_raises exc have "is_HTTPException e" by blast
    with c e p v \<open>r = Inl e\<close> show False
      by (cases e) (auto simp: app_def route_def)
  qed
  with run assms st show ?thesis
    by (cases out) auto
qed

text \<open>
  Claim C4, on a request whose image does not decode: \<open>perform_ocr\<close> raises
  \<open>HTTPException\<close> with status 400, the application answers with the error response,
  and the middleware, whose \<open>call_next\<close> has returned, adds one to
  \<open>successful_requests\<close> and leaves \<open>failed_requests\<close> at 0. The request makes one
  update of the statistics: one more in \<open>total_requests\<close> and one duration.
\<close>

theorem invalid_image_counted_as_success:
  "fst (serve stub (PostOcr \<lparr>req_image = [], languages = [''en''], detail = 1, gpu = True\<rparr>)
          stub_initial)
     = Inr (ErrorContent 400 ''Invalid image data: cannot identify image file'')
   \<and> STATS (snd (serve stub
        (PostOcr \<lparr>req_image = [], languages = [''en''], detail = 1, gpu = True\<rparr>) stub_initial))
     = \<lparr>total_requests = 1, successful_requests = 1, failed_requests = 0,
        processing_times = [2000]\<rparr>"
  by (simp add: run_defs)

section \<open>The window of durations\<close>

text \<open>
  \<open>record_time\<close> keeps a window of at most 1000 durations: recording a list of
  durations, one after the other, leaves its last 1000.
\<close>

lemma record_time_length: "length w \<le> 1000 \<Longrightarrow> length (record_time d w) \<le> 1000"
  by (simp add: record_time_def Let_def)

lemma record_time_below: "length w < 1000 \<Longrightarrow> record_time d w = w @ [d]"
  by (simp add: record_time_def Let_def)

lemma record_time_full: "length w = 1000 \<Longrightarrow> record_time d w = tl w @ [d]"
  by (cases w) (simp_all add: record_time_def Let_def)

lemma record_all:
  "length w \<le> 1000 \<Longrightarrow>
     foldl (\<lambda>w d. record_time d w) w ds = drop (length (w @ ds) - 1000) (w @ ds)"
proof (induction ds arbitrary: w)
  case Nil
  then show ?case by simp
next
  case (Cons d ds)
  show ?case
  proof (cases "length w < 1000")
    case True
    then have r: "record_time d w = w @ [d]" by (rule record_time_below)
    have "length (w @ [d]) \<le> 1000" using True by simp
    from Cons.IH [OF this] r show ?thesis by simp
  next
    case False
    with Cons.prems have len: "length w = 1000" by simp
    then have r: "record_time d w = tl w @ [d]" by (rule record_time_full)
    have l: "length (tl w @ [d]) \<le> 1000" using len by simp
    have "drop (length ds) (tl w @ d # ds) = drop (Suc (length ds)) (w @ d # ds)"
      using len by (cases w) simp_all
    with Cons.IH [OF l] r len show ?thesis by simp
  qed
qed

lemma serve_step:
  "\<exists>d. processing_times (STATS (snd (serve rt req s))) = record_time d (processing_times (STATS s))
       \<and> total_requests (STATS (snd (serve rt req s))) = total_requests (STATS s) + 1"
proof -
  obtain rid w1 where u: "uuid4 rt (world s) = (rid, w1)" by (cases "uuid4 rt (world s)")
  obtain t0 w2 where t0: "time rt w1 = (t0, w2)" by (cases "time rt w1")
  obtain out s1 where c: "app rt req (s\<lparr>world := w2\<rparr>) = (out, s1)"
    by (cases "app rt req (s\<lparr>world := w2\<rparr>)")
  obtain t1 w3 where t1: "time rt (world s1) = (t1, w3)" by (cases "time rt (world s1)")
  have st: "STATS s1 = STATS s"
    using app_STATS [of rt req "s\<lparr>world := w2\<rparr>"] c by simp
  show ?thesis
    unfolding serve_def
      track_requests_run [where call_next = "app rt req", OF u t0 c t1]
    by (auto simp: st)
qed

text \<open>
  After a list of requests the window is what \<open>record_time\<close> makes of their durations,
  in order.
\<close>

lemma serve_all_window:
  "\<exists>ds. length ds = length reqs
       \<and> processing_times (STATS (serve_all rt reqs s))
           = foldl (\<lambda>w d. record_time d w) (processing_times (STATS s)) ds
       \<and> total_requests (STATS (serve_all rt reqs s))
           = total_requests (STATS s) + int (length reqs)"
proof (induction reqs arbitrary: s)
  case Nil
  show ?case by simp
next
  case (Cons req reqs)
  from serve_step [of rt req s] obtain d where
    d: "processing_times (STATS (snd (serve rt req s))) = record_time d (processing_times (STATS s))"
       "total_requests (STATS (snd (serve rt req s))) = total_requests (STATS s) + 1"
    by blast
  from Cons.IH [of "snd (serve rt req s)"] obtain ds where
    ds: "length ds = length reqs"
        "processing_times (STATS (serve_all rt reqs (snd (serve rt req s))))
           = foldl (\<lambda>w d. record_time d w) (processing_times (STATS (snd (serve rt req s)))) ds"
        "total_requests (STATS (serve_all rt reqs (snd (serve rt req s))))
           = total_requests (STATS (snd (serve rt req s))) + int (length reqs)"
    by blast
  show ?case
    by (rule exI [of _ "d # ds"]) (simp add: d ds)
qed

section \<open>Some floats\<close>

text \<open>
  The floats that the quotients, products and roundings below evaluate to, each from
  its binade and significand.
\<close>

lemma fdiv_1_3: "fdiv 1 3 = 6004799503160661 / 18014398509481984"
  using fl_value [of "- 2" "1 / 3" 6004799503160661] by (simp add: fdiv_def pow2_def)

lemma fmul_third_100:
  "fmul (6004799503160661 / 18014398509481984) 100 = 2345624805922133 / 70368744177664"
  using fl_value [of 5 "6004799503160661 / 18014398509481984 * 100" 4691249611844266]
  by (simp add: fmul_def pow2_def)

lemma fl_33_33: "fl (3333 / 100) = 2345390243441541 / 70368744177664"
  using fl_value [of 5 "3333 / 100" 4690780486883082] by (simp add: pow2_def)

lemma py_round_third: "py_round (2345624805922133 / 70368744177664) 2 = 2345390243441541 / 70368744177664"
  using py_round_value [of 3333 "2345624805922133 / 70368744177664" 2] by (simp add: fl_33_33)

lemma fdiv_23_160: "fdiv 23 160 = 2589569785738035 / 18014398509481984"
  using fl_value [of "- 3" "23 / 160" 5179139571476070] by (simp add: fdiv_def pow2_def)

lemma fmul_23_160_100:
  "fmul (2589569785738035 / 18014398509481984) 100 = 8092405580431359 / 562949953421312"
  using fl_value [of 3 "2589569785738035 / 18014398509481984 * 100" 8092405580431359]
  by (simp add: fmul_def pow2_def)

lemma fl_14_37: "fl (1437 / 100) = 8089590830664253 / 562949953421312"
  using fl_value [of 3 "1437 / 100" 8089590830664253] by (simp add: pow2_def)

lemma py_round_23_160:
  "py_round (8092405580431359 / 562949953421312) 2 = 8089590830664253 / 562949953421312"
  using py_round_value [of 1437 "8092405580431359 / 562949953421312" 2] by (simp add: fl_14_37)

lemma fdiv_1_40: "fdiv 1 40 = 3602879701896397 / 144115188075855872"
  using fl_value [of "- 6" "1 / 40" 7205759403792794] by (simp add: fdiv_def pow2_def)

lemma fl_0_03: "fl (3 / 100) = 1080863910568919 / 36028797018963968"
  using fl_value [of "- 6" "3 / 100" 8646911284551352] by (simp add: pow2_def)

lemma py_round_1_40:
  "py_round (3602879701896397 / 144115188075855872) 2 = 1080863910568919 / 36028797018963968"
  using py_round_value [of 3 "3602879701896397 / 144115188075855872" 2] by (simp add: fl_0_03)

lemma fdiv_1_160: "fdiv 1 160 = 3602879701896397 / 576460752303423488"
  using fl_value [of "- 8" "1 / 160" 7205759403792794] by (simp add: fdiv_def pow2_def)

lemma fl_0_01: "fl (1 / 100) = 5764607523034235 / 576460752303423488"
  using fl_value [of "- 7" "1 / 100" 5764607523034235] by (simp add: pow2_def)

lemma py_round_1_160:
  "py_round (3602879701896397 / 576460752303423488) 2 = 5764607523034235 / 576460752303423488"
  using py_round_value [of 1 "3602879701896397 / 576460752303423488" 2] by (simp add: fl_0_01)

lemma fdiv_1_1000: "fdiv 1 1000 = 1152921504606847 / 1152921504606846976"
  using fl_value [of "- 10" "1 / 1000" 4611686018427388] by (simp add: fdiv_def pow2_def)

lemma py_round_1_1000: "py_round (1152921504606847 / 1152921504606846976) 2 = 0"
  using py_round_value [of 0 "1152921504606847 / 1152921504606846976" 2] by (simp add: fl_0)

lemma stub_sum_one: "float_sum stub (1 # replicate n 0) = 1"
proof -
  have "foldl (\<lambda>a x. fl (a + x)) 1 (replicate n 0) = 1"
    by (induction n) (simp_all add: fl_1)
  then show ?thesis by (simp add: stub_def fl_1)
qed

section \<open>The statistics snapshot\<close>

lemma success_rate_of_stats:
  "map_sum id success_rate (fst (get_server_stats rt s)) =
     Inr (if total_requests (STATS s) > 0
          then py_round (fmul (fdiv (of_int (successful_requests (STATS s)))
                                    (of_int (total_requests (STATS s)))) 100) 2
          else 0)"
  by (simp add: get_server_stats_def Let_def py_round_0 split: prod.splits)

text \<open>
  Claim C8, as the code has it: when the window is what recording the durations \<open>ds\<close>
  in order has left, \<open>get_server_stats\<close> returns, without raising, the three counters
  as they are; as success rate, the float \<open>successful_requests / total_requests * 100\<close>
  rounded by \<open>round(\<cdot>, 2)\<close>, and 0 when \<open>total_requests\<close> is 0; as average, the
  float \<open>sum(window) / len(window)\<close> rounded by \<open>round(\<cdot>, 2)\<close>, and 0 when the window
  is empty. Each of the two is the float nearest to a number of two decimals that lies
  within 0.005 of the unrounded float. The window is the last 1000 of \<open>ds\<close>, so an older
  duration has no part in the average.
\<close>

theorem stats_snapshot:
  assumes "processing_times (STATS s) = foldl (\<lambda>w d. record_time d w) [] ds"
  shows "\<exists>resp w1 kr ka.
           get_server_stats rt s = (Inr resp, s\<lparr>world := w1\<rparr>)
         \<and> r_total_requests resp = total_requests (STATS s)
         \<and> r_successful_requests resp = successful_requests (STATS s)
         \<and> r_failed_requests resp = failed_requests (STATS s)
         \<and> success_rate resp =
             (if total_requests (STATS s) > 0
              then py_round (fmul (fdiv (of_int (successful_requests (STATS s)))
                                        (of_int (total_requests (STATS s)))) 100) 2
              else 0)
         \<and> success_rate resp = fl (of_int kr / 100)
         \<and> (total_requests (STATS s) > 0 \<longrightarrow>
              \<bar>fmul (fdiv (of_int (successful_requests (STATS s)))
                         (of_int (total_requests (STATS s)))) 100 - of_int kr / 100\<bar> \<le> 1 / 200)
         \<and> average_processing_time_ms resp =
             (if ds = [] then 0
              else py_round (fdiv (float_sum rt (drop (length ds - 1000) ds))
                                  (of_nat (length (drop (length ds - 1000) ds)))) 2)
         \<and> average_processing_time_ms resp = fl (of_int ka / 100)
         \<and> (ds \<noteq> [] \<longrightarrow>
              \<bar>fdiv (float_sum rt (drop (length ds - 1000) ds))
                    (of_nat (length (drop (length ds - 1000) ds))) - of_int ka / 100\<bar> \<le> 1 / 200)
         \<and> processing_times (STATS s) = drop (length ds - 1000) ds
         \<and> length (processing_times (STATS s)) \<le> 1000"
proof -
  let ?W = "drop (length ds - 1000) ds"
  let ?rate = "fmul (fdiv (of_int (successful_requests (STATS s)))
                          (of_int (total_requests (STATS s)))) 100"
  let ?avg = "fdiv (float_sum rt ?W) (of_nat (length ?W))"
  have window: "processing_times (STATS s) = ?W"
    using record_all [of "[]" ds] assms by simp
  have nonempty: "?W = [] \<longleftrightarrow> ds = []"
    by (cases ds) auto
  obtain now w1 where t: "time rt (world s) = (now, w1)" by (cases "time rt (world s)")
  obtain kr where kr: "(if total_requests (STATS s) > 0 then py_round ?rate 2 else 0)
                          = fl (of_int kr / 100)"
    "total_requests (STATS s) > 0 \<longrightarrow> \<bar>?rate - of_int kr / 100\<bar> \<le> 1 / 200"
  proof (cases "total_requests (STATS s) > 0")
    case True
    from py_round_two_decimals [of ?rate] obtain k where
      "py_round ?rate 2 = fl (of_int k / 100)" "\<bar>?rate - of_int k / 100\<bar> \<le> 1 / 200" by blast
    with True that [of k] show ?thesis by simp
  next
    case False
    with that [of 0] show ?thesis by (simp add: fl_0)
  qed
  obtain ka where ka: "(if ds = [] then 0 else py_round ?avg 2) = fl (of_int ka / 100)"
    "ds \<noteq> [] \<longrightarrow> \<bar>?avg - of_int ka / 100\<bar> \<le> 1 / 200"
  proof (cases "ds = []")
    case True
    with that [of 0] show ?thesis by (simp add: fl_0)
  next
    case False
    from py_round_two_decimals [of ?avg] obtain k where
      "py_round ?avg 2 = fl (of_int k / 100)" "\<bar>?avg - of_int k / 100\<bar> \<le> 1 / 200" by blast
    with False that [of k] show ?thesis by simp
  qed
  let ?resp = "\<lparr>r_total_requests = total_requests (STATS s),
                 r_successful_requests = successful_requests (STATS s),
                 r_failed_requests = failed_requests (STATS s),
                 success_rate = (if total_requests (STATS s) > 0 then py_round ?rate 2 else 0),
                 average_processing_time_ms = (if ds = [] then 0 else py_round ?avg 2),
                 loaded_models = dict_keys (MODEL_CACHE s),
                 uptime_seconds = py_round (fsub now (START_TIME s)) 2\<rparr>"
  have run: "get_server_stats rt s = (Inr ?resp, s\<lparr>world := w1\<rparr>)"
    using t window nonempty by (simp add: get_server_stats_def Let_def py_round_0)
  have len: "length (processing_times (STATS s)) \<le> 1000"
    unfolding window by simp
  show ?thesis
    apply (rule exI [of _ ?resp], rule exI [of _ w1], rule exI [of _ kr], rule exI [of _ ka])
    using run kr ka window len by simp
qed

theorem stats_snapshot_witness:
  "processing_times (STATS (stub_initial\<lparr>STATS :=
       \<lparr>total_requests = 160, successful_requests = 23, failed_requests = 137,
        processing_times = 1 # replicate 159 0\<rparr>\<rparr>))
     = foldl (\<lambda>w d. record_time d w) [] (1 # replicate 159 0)
   \<and> map_sum id success_rate
        (fst (get_server_stats stub (stub_initial\<lparr>STATS :=
           \<lparr>total_requests = 160, successful_requests = 23, failed_requests = 137,
            processing_times = 1 # replicate 159 0\<rparr>\<rparr>)))
       = Inr (8089590830664253 / 562949953421312)
   \<and> map_sum id average_processing_time_ms
        (fst (get_server_stats stub (stub_initial\<lparr>STATS :=
           \<lparr>total_requests = 160, successful_requests = 23, failed_requests = 137,
            processing_times = 1 # replicate 159 0\<rparr>\<rparr>)))
       = Inr (5764607523034235 / 576460752303423488)
   \<and> processing_times (STATS (stub_initial\<lparr>STATS :=
       \<lparr>total_requests = 1001, successful_requests = 1001, failed_requests = 0,
        processing_times = 1 # replicate 999 0\<rparr>\<rparr>))
     = foldl (\<lambda>w d. record_time d w) [] (7 # 1 # replicate 999 0)
   \<and> map_sum id average_processing_time_ms
        (fst (get_server_stats stub (stub_initial\<lparr>STATS :=
           \<lparr>total_requests = 1001, successful_requests = 1001, failed_requests = 0,
            processing_times = 1 # replicate 999 0\<rparr>\<rparr>)))
       = Inr 0"
proof -
  let ?s = "stub_initial\<lparr>STATS :=
       \<lparr>total_requests = 160, successful_requests = 23, failed_requests = 137,
        processing_times = 1 # replicate 159 0\<rparr>\<rparr>"
  let ?ds = "1 # replicate 159 (0::rat)"
  have h: "processing_times (STATS ?s) = foldl (\<lambda>w d. record_time d w) [] ?ds"
    using record_all [of "[]" ?ds] by simp
  have w: "drop (length ?ds - 1000) ?ds = ?ds" by simp
  from stats_snapshot [OF h, of stub] obtain resp w1 where
    run: "get_server_stats stub ?s = (Inr resp, ?s\<lparr>world := w1\<rparr>)"
    and rate: "success_rate resp =
                 (if total_requests (STATS ?s) > 0
                  then py_round (fmul (fdiv (of_int (successful_requests (STATS ?s)))
                                            (of_int (total_requests (STATS ?s)))) 100) 2
                  else 0)"
    and avg: "average_processing_time_ms resp =
                (if ?ds = [] then 0
                 else py_round (fdiv (float_sum stub (drop (length ?ds - 1000) ?ds))
                                     (of_nat (length (drop (length ?ds - 1000) ?ds)))) 2)"
    by blast
  from rate have rate': "success_rate resp = 8089590830664253 / 562949953421312"
    by (simp add: fdiv_23_160 fmul_23_160_100 py_round_23_160)
  from avg have avg': "average_processing_time_ms resp = 5764607523034235 / 576460752303423488"
    unfolding w by (simp add: stub_sum_one fdiv_1_160 py_round_1_160)
  from run have f: "fst (get_server_stats stub ?s) = Inr resp"
    by (simp only: fst_conv)
  have c1: "map_sum id success_rate (fst (get_server_stats stub ?s))
              = Inr (8089590830664253 / 562949953421312)"
    unfolding f by (simp only: map_sum.simps rate')
  have c2: "map_sum id average_processing_time_ms (fst (get_server_stats stub ?s))
              = Inr (5764607523034235 / 576460752303423488)"
    unfolding f by (simp only: map_sum.simps avg')
  let ?t = "stub_initial\<lparr>STATS :=
       \<lparr>total_requests = 1001, successful_requests = 1001, failed_requests = 0,
        processing_times = 1 # replicate 999 0\<rparr>\<rparr>"
  let ?es = "7 # 1 # replicate 999 (0::rat)"
  have h2: "processing_times (STATS ?t) = foldl (\<lambda>w d. record_time d w) [] ?es"
    using record_all [of "[]" ?es] by simp
  have w2: "drop (length ?es - 1000) ?es = 1 # replicate 999 0" by simp
  from stats_snapshot [OF h2, of stub] obtain resp2 w2' where
    run2: "get_server_stats stub ?t = (Inr resp2, ?t\<lparr>world := w2'\<rparr>)"
    and avg2: "average_processing_time_ms resp2 =
                (if ?es = [] then 0
                 else py_round (fdiv (float_sum stub (drop (length ?es - 1000) ?es))
                                     (of_nat (length (drop (length ?es - 1000) ?es)))) 2)"
    by blast
  from avg2 have avg2': "average_processing_time_ms resp2 = 0"
    unfolding w2 by (simp add: stub_sum_one fdiv_1_1000 py_round_1_1000)
  from run2 have f2: "fst (get_server_stats stub ?t) = Inr resp2"
    by (simp only: fst_conv)
  have c3: "map_sum id average_processing_time_ms (fst (get_server_stats stub ?t)) = Inr 0"
    unfolding f2 by (simp only: map_sum.simps avg2')
  from h c1 c2 h2 c3 show ?thesis by (intro conjI)
qed

text \<open>One sample of 1 ms and 39 of 0 ms: the mean is the float 0.025, returned as 0.03.\<close>

lemma average_of_one_in_forty:
  "map_sum id average_processing_time_ms
     (fst (get_server_stats stub (stub_initial\<lparr>STATS :=
        \<lparr>total_requests = 40, successful_requests = 40, failed_requests = 0,
         processing_times = 1 # replicate 39 0\<rparr>\<rparr>)))
     = Inr (1080863910568919 / 36028797018963968)"
proof -
  have "(1 + 39 :: rat) = 40" by simp
  then show ?thesis
    by (simp add: get_server_stats_def Let_def stub_sum_one fdiv_1_40 py_round_1_40
          split: prod.splits)
qed

text \<open>
  After one request that succeeded and two that failed the success rate returned is the
  float 33.33, which is neither \<open>1 / 3 * 100\<close> nor the float that
  \<open>1 / 3 * 100\<close> evaluates to.
\<close>

theorem success_rate_counterexample:
  "map_sum id success_rate
     (fst (get_server_stats stub_no_torch
        (serve_all stub_no_torch [GetHealth, GetInfo, GetInfo] stub_initial)))
     = Inr (2345390243441541 / 70368744177664)
   \<and> STATS (serve_all stub_no_torch [GetHealth, GetInfo, GetInfo] stub_initial)
     = \<lparr>total_requests = 3, successful_requests = 1, failed_requests = 2,
        processing_times = [2000, 1000, 1000]\<rparr>
   \<and> (2345390243441541 / 70368744177664 :: rat) \<noteq> 1 / 3 * 100
   \<and> (2345390243441541 / 70368744177664 :: rat) \<noteq> fmul (fdiv 1 3) 100"
proof -
  have st: "STATS (serve_all stub_no_torch [GetHealth, GetInfo, GetInfo] stub_initial)
     = \<lparr>total_requests = 3, successful_requests = 1, failed_requests = 2,
        processing_times = [2000, 1000, 1000]\<rparr>"
    by (simp add: run_defs)
  have rate: "map_sum id success_rate
     (fst (get_server_stats stub_no_torch
        (serve_all stub_no_torch [GetHealth, GetInfo, GetInfo] stub_initial)))
     = Inr (2345390243441541 / 70368744177664)"
    unfolding success_rate_of_stats st
    by (simp add: fdiv_1_3 fmul_third_100 py_round_third)
  have ne1: "(2345390243441541 / 70368744177664 :: rat) \<noteq> 1 / 3 * 100" by simp
  have ne2: "(2345390243441541 / 70368744177664 :: rat) \<noteq> fmul (fdiv 1 3) 100"
    by (simp add: fdiv_1_3 fmul_third_100)
  from rate st ne1 ne2 show ?thesis by (intro conjI)
qed

section \<open>The detail level\<close>

lemma collect_simple:
  "collect simple_result raw = Inr rs \<Longrightarrow>
     list_all2 (\<lambda>item r. item = Text (ocr_text r) \<and> bbox r = [] \<and> confidence r = 0) raw rs"
proof (induction raw arbitrary: rs)
  case Nil
  then show ?case by simp
next
  case (Cons item raw)
  then show ?case
    by (cases item) (auto split: sum.splits)
qed

lemma collect_detailed:
  "collect detailed_result raw = Inr rs \<Longrightarrow>
     list_all2 (\<lambda>item r. \<exists>b. item = Span b (ocr_text r) (confidence r)
                  \<and> bbox r = map (\<lambda>(x, y). [py_int x, py_int y]) b) raw rs"
proof (induction raw arbitrary: rs)
  case Nil
  then show ?case by simp
next
  case (Cons item raw)
  then show ?case
    by (cases item) (auto split: sum.splits)
qed

lemma ocr_except_returns: "ocr_except x = (Inr r, s1) \<Longrightarrow> x = (Inr r, s1)"
  by (cases x rule: ocr_except.cases) auto

lemma ocr_body_results:
  assumes "ocr_body rt request rid t s = (Inr resp, s')"
  shows "\<exists>rd img w raw w'.
           open_image rt (req_image request) = Inr img
         \<and> readtext rt rd img (detail request) w = (Inr raw, w')
         \<and> parse_results (detail request) raw = Inr (results resp)"
  using assms
  by (fastforce simp: ocr_body_def split: sum.splits prod.splits if_splits)

lemma perform_ocr_results:
  assumes "perform_ocr rt request s = (Inr resp, s')"
  shows "\<exists>rd img w raw w'.
           open_image rt (req_image request) = Inr img
         \<and> readtext rt rd img (detail request) w = (Inr raw, w')
         \<and> parse_results (detail request) raw = Inr (results resp)"
proof -
  from assms obtain rid t s0 where "ocr_body rt request rid t s0 = (Inr resp, s')"
    by (auto simp: perform_ocr_def split: prod.splits dest: ocr_except_returns)
  then show ?thesis by (rule ocr_body_results)
qed

text \<open>
  Claim C9: in the response of a successful \<open>perform_ocr\<close>, when \<open>detail\<close> is 0 every
  result has the empty bounding box and confidence 0, its text being the string the
  model returned; when \<open>detail\<close> is 1 every result carries the corners of the model's
  box, each as two integers, with the model's text and confidence, so that, when the
  model returns boxes of 4 corners and confidences between 0 and 1, every result has
  4 points and a confidence between 0 and 1.
\<close>

theorem detail_level_contract:
  assumes "perform_ocr rt request s = (Inr resp, s')"
    and "\<forall>rd img w raw w'. readtext rt rd img (detail request) w = (Inr raw, w') \<longrightarrow>
           (\<forall>b t c. Span b t c \<in> set raw \<longrightarrow> length b = 4 \<and> 0 \<le> c \<and> c \<le> 1)"
  shows "(detail request = 0 \<longrightarrow>
            (\<forall>r \<in> set (results resp). bbox r = [] \<and> confidence r = 0))
       \<and> (detail request = 1 \<longrightarrow>
            (\<forall>r \<in> set (results resp).
               length (bbox r) = 4 \<and> (\<forall>p \<in> set (bbox r). length p = 2)
               \<and> 0 \<le> confidence r \<and> confidence r \<le> 1))
       \<and> (\<exists>rd img w raw w'.
             readtext rt rd img (detail request) w = (Inr raw, w')
           \<and> (detail request = 0 \<longrightarrow>
                list_all2 (\<lambda>item r. item = Text (ocr_text r) \<and> bbox r = [] \<and> confidence r = 0)
                  raw (results resp))
           \<and> (detail request \<noteq> 0 \<longrightarrow>
                list_all2 (\<lambda>item r. \<exists>b. item = Span b (ocr_text r) (confidence r)
                             \<and> bbox r = map (\<lambda>(x, y). [py_int x, py_int y]) b)
                  raw (results resp)))"
proof -
  from perform_ocr_results [OF assms(1)] obtain rd img w raw w' where
    rt: "readtext rt rd img (detail request) w = (Inr raw, w')"
    and p: "parse_results (detail request) raw = Inr (results resp)"
    by blast
  from assms(2) rt have model:
    "\<forall>b t c. Span b t c \<in> set raw \<longrightarrow> length b = 4 \<and> 0 \<le> c \<and> c \<le> 1"
    by blast
  have simple: "list_all2 (\<lambda>item r. item = Text (ocr_text r) \<and> bbox r = [] \<and> confidence r = 0)
                  raw (results resp)" if "detail request = 0"
    using p that by (simp add: parse_results_def collect_simple)
  have detailed: "list_all2 (\<lambda>item r. \<exists>b. item = Span b (ocr_text r) (confidence r)
                             \<and> bbox r = map (\<lambda>(x, y). [py_int x, py_int y]) b)
                  raw (results resp)" if "detail request \<noteq> 0"
    using p that by (simp add: parse_results_def collect_detailed)
  have zero: "\<forall>r \<in> set (results resp). bbox r = [] \<and> confidence r = 0" if "detail request = 0"
    using simple [OF that] by (auto simp: list_all2_conv_all_nth in_set_conv_nth)
  have one: "\<forall>r \<in> set (results resp).
               length (bbox r) = 4 \<and> (\<forall>p \<in> set (bbox r). length p = 2)
               \<and> 0 \<le> confidence r \<and> confidence r \<le> 1" if "detail request = 1"
  proof
    fix r assume "r \<in> set (results resp)"
    then obtain i where i: "i < length (results resp)" "results resp ! i = r"
      by (auto simp: in_set_conv_nth)
    from that have "detail request \<noteq> 0" by simp
    from detailed [OF this] i obtain b where
      b: "raw ! i = Span b (ocr_text r) (confidence r)"
         "bbox r = map (\<lambda>(x, y). [py_int x, py_int y]) b"
         "i < length raw"
      by (auto simp: list_all2_conv_all_nth)
    then have "Span b (ocr_text r) (confidence r) \<in> set raw"
      by (metis nth_mem)
    with model have "length b = 4 \<and> 0 \<le> confidence r \<and> confidence r \<le> 1" by blast
    with b show "length (bbox r) = 4 \<and> (\<forall>p \<in> set (bbox r). length p = 2)
               \<and> 0 \<le> confidence r \<and> confidence r \<le> 1"
      by auto
  qed
  from rt simple detailed zero one show ?thesis by blast
qed



theorem detail_level_contract_witness:
  "perform_ocr stub \<lparr>req_image = ''img'', languages = [''en''], detail = 1, gpu = True\<rparr>
     stub_initial
     = (Inr \<lparr>status = ''success'', request_id = ''id'',
             results = [\<lparr>bbox = [[0, 0], [10, 0], [10, 10], [0, 10]], ocr_text = ''HI'',
                         confidence = 19 / 20\<rparr>],
             processing_time_ms = 8000, model_load_time_ms = 4000, timestamp = ''now''\<rparr>,
        snd (perform_ocr stub
               \<lparr>req_image = ''img'', languages = [''en''], detail = 1, gpu = True\<rparr> stub_initial))
   \<and> list_all (\<lambda>r. length (bbox r) = 4 \<and> list_all (\<lambda>p. length p = 2) (bbox r)
                  \<and> 0 \<le> confidence r \<and> confidence r \<le> 1)
        [\<lparr>bbox = [[0, 0], [10, 0], [10, 10], [0, 10]], ocr_text = ''HI'',
          confidence = 19 / 20\<rparr>]"
proof -
  let ?request = "\<lparr>req_image = ''img'', languages = [''en''], detail = 1, gpu = True\<rparr>"
  let ?resp = "\<lparr>status = ''success'', request_id = ''id'',
             results = [\<lparr>bbox = [[0, 0], [10, 0], [10, 10], [0, 10]], ocr_text = ''HI'',
                         confidence = 19 / 20\<rparr>],
             processing_time_ms = 8000, model_load_time_ms = 4000, timestamp = ''now''\<rparr>"
  have run: "perform_ocr stub ?request stub_initial
               = (Inr ?resp, snd (perform_ocr stub ?request stub_initial))"
    by (simp add: run_defs)
  have model: "\<forall>rd img w raw w'. readtext stub rd img (detail ?request) w = (Inr raw, w') \<longrightarrow>
           (\<forall>b t c. Span b t c \<in> set raw \<longrightarrow> length b = 4 \<and> 0 \<le> c \<and> c \<le> 1)"
    by (auto simp: stub_def split: if_splits)
  from detail_level_contract [OF run model]
  have "\<forall>r \<in> set (results ?resp).
               length (bbox r) = 4 \<and> (\<forall>p \<in> set (bbox r). length p = 2)
               \<and> 0 \<le> confidence r \<and> confidence r \<le> 1"
    by simp
  then have "list_all (\<lambda>r. length (bbox r) = 4 \<and> list_all (\<lambda>p. length p = 2) (bbox r)
                  \<and> 0 \<le> confidence r \<and> confidence r \<le> 1) (results ?resp)"
    by (simp add: list_all_iff)
  with run show ?thesis by simp
qed


end
